theory Spec2Isabelle
  imports Main "HOL-Library.Log_Nat"
begin

section \<open>Storefront cart and checkout: data model\<close>

text \<open>
  The development embeds the client-side cart and checkout logic of
  \<^verbatim>\<open>src/pages/CartPage.tsx\<close> and \<^verbatim>\<open>src/pages/CheckoutPage.tsx\<close>.

  Conventions of the embedding.
  \<^item> A JavaScript \<^verbatim>\<open>string\<close> is a \<^typ>\<open>string\<close>; text outside ASCII is written as the list
    of its UTF-8 bytes. The handlers only compare strings for equality and for being empty,
    which the encoding preserves.
  \<^item> A \<^verbatim>\<open>string | null\<close> is a \<^typ>\<open>string option\<close>.
  \<^item> Prices and quantities are JavaScript numbers holding integer amounts. The fields are
    \<^typ>\<open>int\<close>, and the calculator works on them with the arithmetic of doubles: the
    rounding of a product or a sum beyond \<open>2 ^ 53\<close>, the overflow to an infinity and \<^verbatim>\<open>NaN\<close>
    are written out, as is the rounding of the multiplication by \<^verbatim>\<open>0.09\<close>. An integer is the
    value of a number only if it is a double, that is if rounding it to 53 significant bits
    leaves it unchanged and its magnitude is below \<open>2 ^ 1024\<close>.
  \<^item> Field names that clash with constants of HOL or with keywords of Isabelle carry a prime: \<open>id'\<close>, \<open>image'\<close>,
    \<open>method'\<close>, \<open>notes'\<close>, \<open>total'\<close>.
\<close>

text \<open>
  \<^verbatim>\<open>interface CartItem\<close> of CheckoutPage.tsx has the fields \<open>id\<close>, \<open>productId\<close>, \<open>name\<close>,
  \<open>price\<close>, \<open>quantity\<close>; the one of CartPage.tsx has \<open>image\<close> and \<open>category\<close> in addition.
\<close>

record LineItem =
  id' :: string
  productId :: string
  name :: string
  price :: int
  quantity :: int

record CartItem = LineItem +
  image' :: string
  category :: string

section \<open>Pricing calculator\<close>

subsection \<open>JavaScript numbers\<close>

text \<open>
  The amounts are JavaScript numbers, that is IEEE 754 doubles. The calculator is modelled
  on the numbers whose value is an integer, together with \<^verbatim>\<open>Infinity\<close>, \<^verbatim>\<open>-Infinity\<close> and
  \<^verbatim>\<open>NaN\<close>, which its arithmetic produces from large integers. The two zeros of IEEE are not
  told apart: they are equal for \<^verbatim>\<open>>\<close> and \<^verbatim>\<open>===\<close> and in every sum and product with a
  number other than zero.
\<close>

datatype number = Num int | Infinity | NegInfinity | NaN

text \<open>
  The result of an operation on doubles is the exact result rounded to 53 significant
  bits, a tie going to the even significand. \<open>round_significand\<close> does so on an integer;
  the same function rounds a numerator over a fixed power of two. A rounded result of
  magnitude \<open>2 ^ 1024\<close> or more is an infinity.
\<close>

definition round_significand :: "int \<Rightarrow> int" where
  "round_significand n =
     (let a = \<bar>n\<bar>; k = nat (bitlen a - 53);
          q = a div 2 ^ k; r = a mod 2 ^ k
      in if k = 0 then n
         else sgn n * (if 2 ^ (k - 1) < r \<or> (r = 2 ^ (k - 1) \<and> odd q) then q + 1 else q) * 2 ^ k)"

definition overflow :: "int \<Rightarrow> number" where
  "overflow n =
     (if 2 ^ 1024 \<le> n then Infinity else if n \<le> - (2 ^ 1024) then NegInfinity else Num n)"

text \<open>\<^verbatim>\<open>a * b\<close> on two finite integers.\<close>

definition double_mult :: "int \<Rightarrow> int \<Rightarrow> number" where
  "double_mult a b = overflow (round_significand (a * b))"

text \<open>\<^verbatim>\<open>x + y\<close>: \<^verbatim>\<open>NaN\<close> is absorbing, and the sum of the two infinities is \<^verbatim>\<open>NaN\<close>.\<close>

fun double_add :: "number \<Rightarrow> number \<Rightarrow> number" where
  "double_add (Num a) (Num b) = overflow (round_significand (a + b))"
| "double_add NaN y = NaN"
| "double_add x NaN = NaN"
| "double_add Infinity NegInfinity = NaN"
| "double_add NegInfinity Infinity = NaN"
| "double_add Infinity y = Infinity"
| "double_add NegInfinity y = NegInfinity"
| "double_add x Infinity = Infinity"
| "double_add x NegInfinity = NegInfinity"

text \<open>\<^verbatim>\<open>x > c\<close> for a finite integer \<open>c\<close>; every comparison with \<^verbatim>\<open>NaN\<close> is false.\<close>

fun greater_than :: "number \<Rightarrow> int \<Rightarrow> bool" where
  "greater_than (Num a) c = (c < a)"
| "greater_than Infinity c = True"
| "greater_than NegInfinity c = False"
| "greater_than NaN c = False"

subsection \<open>The double product \<^verbatim>\<open>subtotal * 0.09\<close> and \<^verbatim>\<open>Math.round\<close>\<close>

text \<open>
  The literal \<^verbatim>\<open>0.09\<close> denotes the double \<open>0x1.70a3d70a3d70ap-4\<close>, that is
  \<open>6485183463413514 / 2 ^ 56\<close>. The product of an integer \<open>s\<close> and \<^verbatim>\<open>0.09\<close> is not an
  integer; it is represented by its numerator over \<open>2 ^ 56\<close>. The exact product has the
  numerator \<open>s * 6485183463413514\<close>, and the double product is that numerator rounded to
  53 significant bits: the product is smaller than \<open>s\<close> in magnitude, so it does not
  overflow, and it is \<open>0\<close> or at least \<open>0.09\<close> in magnitude, so it is not subnormal.
\<close>

definition double_0_09 :: int where
  "double_0_09 = 6485183463413514"

definition times_0_09 :: "int \<Rightarrow> int" where
  "times_0_09 s = round_significand (s * double_0_09)"

text \<open>
  \<^verbatim>\<open>Math.round(x)\<close> is the integer nearest to \<open>x\<close>, a tie going up: \<open>\<lfloor>x + 1/2\<rfloor>\<close>. On a
  numerator \<open>n\<close> over \<open>2 ^ 56\<close> this is \<open>(n + 2 ^ 55) div 2 ^ 56\<close>.
\<close>

definition Math_round :: "int \<Rightarrow> int" where
  "Math_round n = (n + 2 ^ 55) div 2 ^ 56"

text \<open>
  \<^verbatim>\<open>Math.round(x * 0.09)\<close> on a number: an infinity times \<^verbatim>\<open>0.09\<close> is that infinity,
  \<^verbatim>\<open>NaN\<close> stays \<^verbatim>\<open>NaN\<close>, and \<^verbatim>\<open>Math.round\<close> returns both unchanged.
\<close>

fun round_times_0_09 :: "number \<Rightarrow> number" where
  "round_times_0_09 (Num s) = Num (Math_round (times_0_09 s))"
| "round_times_0_09 Infinity = Infinity"
| "round_times_0_09 NegInfinity = NegInfinity"
| "round_times_0_09 NaN = NaN"

subsection \<open>Subtotal, shipping, tax, total\<close>

text \<open>
  CartPage.tsx, lines 211-217, and CheckoutPage.tsx, lines 108-111 (the same code):
  \<^verbatim>\<open>
  const subtotal = cartItems.reduce((sum, item) => sum + item.price * item.quantity, 0);
  const shipping = subtotal > 1000000 ? 0 : 50000;
  const tax = Math.round(subtotal * 0.09);
  const total = subtotal + shipping + tax;
  \<close>
  \<^verbatim>\<open>reduce\<close> with an initial value is a left fold; \<^verbatim>\<open>a + b + c\<close> is \<^verbatim>\<open>(a + b) + c\<close>.
\<close>

definition subtotal :: "'a LineItem_scheme list \<Rightarrow> number" where
  "subtotal cartItems =
     foldl (\<lambda>sum item. double_add sum (double_mult (price item) (quantity item))) (Num 0)
       cartItems"

definition shipping :: "'a LineItem_scheme list \<Rightarrow> number" where
  "shipping cartItems = (if greater_than (subtotal cartItems) 1000000 then Num 0 else Num 50000)"

definition tax :: "'a LineItem_scheme list \<Rightarrow> number" where
  "tax cartItems = round_times_0_09 (subtotal cartItems)"

definition total' :: "'a LineItem_scheme list \<Rightarrow> number" where
  "total' cartItems =
     double_add (double_add (subtotal cartItems) (shipping cartItems)) (tax cartItems)"

text \<open>A line item that carries only what the calculator reads.\<close>

definition line :: "int \<Rightarrow> int \<Rightarrow> LineItem" where
  "line p q = \<lparr>id' = [], productId = [], name = [], price = p, quantity = q\<rparr>"

text \<open>
  The sums of a list stay exact: no product of a price and a quantity and no partial sum,
  started at \<open>acc\<close>, exceeds \<open>2 ^ 53\<close> in magnitude.
\<close>

fun exact_sums :: "int \<Rightarrow> 'a LineItem_scheme list \<Rightarrow> bool" where
  "exact_sums acc [] = True"
| "exact_sums acc (item # cartItems) =
     (\<bar>price item * quantity item\<bar> \<le> 2 ^ 53
      \<and> \<bar>acc + price item * quantity item\<bar> \<le> 2 ^ 53
      \<and> exact_sums (acc + price item * quantity item) cartItems)"

section \<open>Environment of the pages\<close>

subsection \<open>Text literals outside ASCII\<close>

text \<open>CartPage.tsx line 43: the name of the first mock item (''organic fertilizer'').\<close>

definition name_fertilizer :: string where
  "name_fertilizer =
    [CHR 0xDA, CHR 0xA9, CHR 0xD9, CHR 0x88, CHR 0xD8, CHR 0xAF, CHR 0x20, CHR 0xD8, CHR 0xA7,
     CHR 0xD8, CHR 0xB1, CHR 0xDA, CHR 0xAF, CHR 0xD8, CHR 0xA7, CHR 0xD9, CHR 0x86, CHR 0xDB,
     CHR 0x8C, CHR 0xDA, CHR 0xA9]"

text \<open>CartPage.tsx line 47: the category of the first mock item (''fertilizer'').\<close>

definition category_fertilizer :: string where
  "category_fertilizer =
    [CHR 0xDA, CHR 0xA9, CHR 0xD9, CHR 0x88, CHR 0xD8, CHR 0xAF]"

text \<open>CartPage.tsx line 52: the name of the second mock item (''high-quality wheat seed'').\<close>

definition name_seeds :: string where
  "name_seeds =
    [CHR 0xD8, CHR 0xA8, CHR 0xD8, CHR 0xB0, CHR 0xD8, CHR 0xB1, CHR 0x20, CHR 0xDA, CHR 0xAF,
     CHR 0xD9, CHR 0x86, CHR 0xD8, CHR 0xAF, CHR 0xD9, CHR 0x85, CHR 0x20, CHR 0xD8, CHR 0xA8,
     CHR 0xD8, CHR 0xA7, CHR 0x20, CHR 0xDA, CHR 0xA9, CHR 0xDB, CHR 0x8C, CHR 0xD9, CHR 0x81,
     CHR 0xDB, CHR 0x8C, CHR 0xD8, CHR 0xAA, CHR 0x20, CHR 0xD8, CHR 0xA8, CHR 0xD8, CHR 0xA7,
     CHR 0xD9, CHR 0x84, CHR 0xD8, CHR 0xA7]"

text \<open>CartPage.tsx line 56: the category of the second mock item (''seed'').\<close>

definition category_seeds :: string where
  "category_seeds =
    [CHR 0xD8, CHR 0xA8, CHR 0xD8, CHR 0xB0, CHR 0xD8, CHR 0xB1]"

text \<open>CartPage.tsx line 110: the category shown when the product has none (''uncategorised'').\<close>

definition category_default :: string where
  "category_default =
    [CHR 0xD8, CHR 0xAF, CHR 0xD8, CHR 0xB3, CHR 0xD8, CHR 0xAA, CHR 0xD9, CHR 0x87, CHR 0xE2,
     CHR 0x80, CHR 0x8C, CHR 0xD8, CHR 0xA8, CHR 0xD9, CHR 0x86, CHR 0xD8, CHR 0xAF, CHR 0xDB,
     CHR 0x8C, CHR 0x20, CHR 0xD9, CHR 0x86, CHR 0xD8, CHR 0xB4, CHR 0xD8, CHR 0xAF, CHR 0xD9,
     CHR 0x87]"

text \<open>CartPage.tsx line 121 (''error loading the cart'').\<close>

definition msg_fetch_cart :: string where
  "msg_fetch_cart =
    [CHR 0xD8, CHR 0xAE, CHR 0xD8, CHR 0xB7, CHR 0xD8, CHR 0xA7, CHR 0x20, CHR 0xD8, CHR 0xAF,
     CHR 0xD8, CHR 0xB1, CHR 0x20, CHR 0xD8, CHR 0xA8, CHR 0xD8, CHR 0xA7, CHR 0xD8, CHR 0xB1,
     CHR 0xDA, CHR 0xAF, CHR 0xD8, CHR 0xB0, CHR 0xD8, CHR 0xA7, CHR 0xD8, CHR 0xB1, CHR 0xDB,
     CHR 0x8C, CHR 0x20, CHR 0xD8, CHR 0xB3, CHR 0xD8, CHR 0xA8, CHR 0xD8, CHR 0xAF, CHR 0x20,
     CHR 0xD8, CHR 0xAE, CHR 0xD8, CHR 0xB1, CHR 0xDB, CHR 0x8C, CHR 0xD8, CHR 0xAF]"

text \<open>CartPage.tsx line 166 (''error updating the quantity'').\<close>

definition msg_update_quantity :: string where
  "msg_update_quantity =
    [CHR 0xD8, CHR 0xAE, CHR 0xD8, CHR 0xB7, CHR 0xD8, CHR 0xA7, CHR 0x20, CHR 0xD8, CHR 0xAF,
     CHR 0xD8, CHR 0xB1, CHR 0x20, CHR 0xD8, CHR 0xA8, CHR 0xD9, CHR 0x87, CHR 0xE2, CHR 0x80,
     CHR 0x8C, CHR 0xD8, CHR 0xB1, CHR 0xD9, CHR 0x88, CHR 0xD8, CHR 0xB2, CHR 0xD8, CHR 0xB1,
     CHR 0xD8, CHR 0xB3, CHR 0xD8, CHR 0xA7, CHR 0xD9, CHR 0x86, CHR 0xDB, CHR 0x8C, CHR 0x20,
     CHR 0xD8, CHR 0xAA, CHR 0xD8, CHR 0xB9, CHR 0xD8, CHR 0xAF, CHR 0xD8, CHR 0xA7, CHR 0xD8,
     CHR 0xAF]"

text \<open>CartPage.tsx line 204 (''error removing the product'').\<close>

definition msg_remove_item :: string where
  "msg_remove_item =
    [CHR 0xD8, CHR 0xAE, CHR 0xD8, CHR 0xB7, CHR 0xD8, CHR 0xA7, CHR 0x20, CHR 0xD8, CHR 0xAF,
     CHR 0xD8, CHR 0xB1, CHR 0x20, CHR 0xD8, CHR 0xAD, CHR 0xD8, CHR 0xB0, CHR 0xD9, CHR 0x81,
     CHR 0x20, CHR 0xD9, CHR 0x85, CHR 0xD8, CHR 0xAD, CHR 0xD8, CHR 0xB5, CHR 0xD9, CHR 0x88,
     CHR 0xD9, CHR 0x84]"

text \<open>CheckoutPage.tsx line 115 (''cart not found'').\<close>

definition msg_no_cart :: string where
  "msg_no_cart =
    [CHR 0xD8, CHR 0xB3, CHR 0xD8, CHR 0xA8, CHR 0xD8, CHR 0xAF, CHR 0x20, CHR 0xD8, CHR 0xAE,
     CHR 0xD8, CHR 0xB1, CHR 0xDB, CHR 0x8C, CHR 0xD8, CHR 0xAF, CHR 0x20, CHR 0xDB, CHR 0x8C,
     CHR 0xD8, CHR 0xA7, CHR 0xD9, CHR 0x81, CHR 0xD8, CHR 0xAA, CHR 0x20, CHR 0xD9, CHR 0x86,
     CHR 0xD8, CHR 0xB4, CHR 0xD8, CHR 0xAF]"

text \<open>CheckoutPage.tsx line 120 (''please select the delivery address'').\<close>

definition msg_select_address :: string where
  "msg_select_address =
    [CHR 0xD9, CHR 0x84, CHR 0xD8, CHR 0xB7, CHR 0xD9, CHR 0x81, CHR 0xD8, CHR 0xA7, CHR 0x20,
     CHR 0xD8, CHR 0xA2, CHR 0xD8, CHR 0xAF, CHR 0xD8, CHR 0xB1, CHR 0xD8, CHR 0xB3, CHR 0x20,
     CHR 0xD8, CHR 0xAA, CHR 0xD8, CHR 0xAD, CHR 0xD9, CHR 0x88, CHR 0xDB, CHR 0x8C, CHR 0xD9,
     CHR 0x84, CHR 0x20, CHR 0xD8, CHR 0xB1, CHR 0xD8, CHR 0xA7, CHR 0x20, CHR 0xD8, CHR 0xA7,
     CHR 0xD9, CHR 0x86, CHR 0xD8, CHR 0xAA, CHR 0xD8, CHR 0xAE, CHR 0xD8, CHR 0xA7, CHR 0xD8,
     CHR 0xA8, CHR 0x20, CHR 0xDA, CHR 0xA9, CHR 0xD9, CHR 0x86, CHR 0xDB, CHR 0x8C, CHR 0xD8,
     CHR 0xAF]"

text \<open>CheckoutPage.tsx line 130 (''please log in to your account first'').\<close>

definition msg_login_first :: string where
  "msg_login_first =
    [CHR 0xD9, CHR 0x84, CHR 0xD8, CHR 0xB7, CHR 0xD9, CHR 0x81, CHR 0xD8, CHR 0xA7, CHR 0x20,
     CHR 0xD8, CHR 0xA7, CHR 0xD8, CHR 0xA8, CHR 0xD8, CHR 0xAA, CHR 0xD8, CHR 0xAF, CHR 0xD8,
     CHR 0xA7, CHR 0x20, CHR 0xD9, CHR 0x88, CHR 0xD8, CHR 0xA7, CHR 0xD8, CHR 0xB1, CHR 0xD8,
     CHR 0xAF, CHR 0x20, CHR 0xD8, CHR 0xAD, CHR 0xD8, CHR 0xB3, CHR 0xD8, CHR 0xA7, CHR 0xD8,
     CHR 0xA8, CHR 0x20, CHR 0xDA, CHR 0xA9, CHR 0xD8, CHR 0xA7, CHR 0xD8, CHR 0xB1, CHR 0xD8,
     CHR 0xA8, CHR 0xD8, CHR 0xB1, CHR 0xDB, CHR 0x8C, CHR 0x20, CHR 0xD8, CHR 0xB4, CHR 0xD9,
     CHR 0x88, CHR 0xDB, CHR 0x8C, CHR 0xD8, CHR 0xAF]"

text \<open>CheckoutPage.tsx line 157 (''error placing the order'').\<close>

definition msg_order_failed :: string where
  "msg_order_failed =
    [CHR 0xD8, CHR 0xAE, CHR 0xD8, CHR 0xB7, CHR 0xD8, CHR 0xA7, CHR 0x20, CHR 0xD8, CHR 0xAF,
     CHR 0xD8, CHR 0xB1, CHR 0x20, CHR 0xD8, CHR 0xAB, CHR 0xD8, CHR 0xA8, CHR 0xD8, CHR 0xAA,
     CHR 0x20, CHR 0xD8, CHR 0xB3, CHR 0xD9, CHR 0x81, CHR 0xD8, CHR 0xA7, CHR 0xD8, CHR 0xB1,
     CHR 0xD8, CHR 0xB4]"

text \<open>CheckoutPage.tsx line 161 (''error placing the order, please try again'').\<close>

definition msg_order_retry :: string where
  "msg_order_retry =
    [CHR 0xD8, CHR 0xAE, CHR 0xD8, CHR 0xB7, CHR 0xD8, CHR 0xA7, CHR 0x20, CHR 0xD8, CHR 0xAF,
     CHR 0xD8, CHR 0xB1, CHR 0x20, CHR 0xD8, CHR 0xAB, CHR 0xD8, CHR 0xA8, CHR 0xD8, CHR 0xAA,
     CHR 0x20, CHR 0xD8, CHR 0xB3, CHR 0xD9, CHR 0x81, CHR 0xD8, CHR 0xA7, CHR 0xD8, CHR 0xB1,
     CHR 0xD8, CHR 0xB4, CHR 0x2E, CHR 0x20, CHR 0xD9, CHR 0x84, CHR 0xD8, CHR 0xB7, CHR 0xD9,
     CHR 0x81, CHR 0xD8, CHR 0xA7, CHR 0x20, CHR 0xD8, CHR 0xAF, CHR 0xD9, CHR 0x88, CHR 0xD8,
     CHR 0xA8, CHR 0xD8, CHR 0xA7, CHR 0xD8, CHR 0xB1, CHR 0xD9, CHR 0x87, CHR 0x20, CHR 0xD8,
     CHR 0xAA, CHR 0xD9, CHR 0x84, CHR 0xD8, CHR 0xA7, CHR 0xD8, CHR 0xB4, CHR 0x20, CHR 0xDA,
     CHR 0xA9, CHR 0xD9, CHR 0x86, CHR 0xDB, CHR 0x8C, CHR 0xD8, CHR 0xAF, CHR 0x2E]"

subsection \<open>Requests, responses, exceptions\<close>

text \<open>
  A call \<^verbatim>\<open>fetch(url, {method, headers, body})\<close>. The bodies the pages send are
  \<^verbatim>\<open>JSON.stringify({ quantity: newQuantity })\<close> and \<^verbatim>\<open>JSON.stringify({ cartId })\<close>.
\<close>

datatype http_method = GET | PUT | DELETE | POST

datatype request_body = QuantityBody int | CartIdBody string

record request =
  url :: string
  method' :: http_method
  headers :: "(string \<times> string) list"
  body :: "request_body option"

text \<open>
  What the network answers to one \<^verbatim>\<open>fetch\<close>: the promise rejects (\<open>NetworkError\<close>), or it
  resolves to a response with its \<^verbatim>\<open>ok\<close> flag; \<^verbatim>\<open>response.json()\<close> then rejects
  (\<open>NotJson\<close>) or yields the envelope \<^verbatim>\<open>{success, data, message}\<close>. A field of the envelope
  that is absent or falsy is \<open>False\<close>, respectively \<open>None\<close>.
\<close>

datatype 'd envelope = Envelope (success: bool) (data: "'d option") (message: "string option")

datatype 'd json = NotJson | Json "'d envelope"

datatype 'd fetch_result = NetworkError | Response bool "'d json"

datatype js_exception = NetworkFailure | Error string | SyntaxError | TypeError

text \<open>
  A handler runs on a world and either completes or throws; the world reached is kept in
  both cases, since a state setter that ran before a \<^verbatim>\<open>throw\<close> has run.
\<close>

datatype 's completion = Normal 's | Throw js_exception 's

fun state_of :: "'s completion \<Rightarrow> 's" where
  "state_of (Normal s) = s"
| "state_of (Throw e s) = s"

fun propagates :: "'s completion \<Rightarrow> bool" where
  "propagates (Normal s) = False"
| "propagates (Throw e s) = True"

text \<open>\<^verbatim>\<open>try { body } catch (err) { handler }\<close> and \<^verbatim>\<open>try { ... } finally { f }\<close>.\<close>

definition try_catch ::
  "'s completion \<Rightarrow> (js_exception \<Rightarrow> 's \<Rightarrow> 's completion) \<Rightarrow> 's completion" where
  "try_catch c handler = (case c of Normal s \<Rightarrow> Normal s | Throw e s \<Rightarrow> handler e s)"

definition try_finally :: "'s completion \<Rightarrow> ('s \<Rightarrow> 's) \<Rightarrow> 's completion" where
  "try_finally c f = (case c of Normal s \<Rightarrow> Normal (f s) | Throw e s \<Rightarrow> Throw e (f s))"

text \<open>
  A call of an async function whose promise is not awaited: its effects take place, a
  rejection of its promise does not reach the caller.
\<close>

definition not_awaited :: "'s completion \<Rightarrow> 's completion" where
  "not_awaited c = Normal (state_of c)"

subsection \<open>Page state and world\<close>

text \<open>
  The \<^verbatim>\<open>useState\<close> cells that both pages have (CartPage.tsx lines 62-65, CheckoutPage.tsx
  lines 37-42), with the item type of the page.
\<close>

record 'i page_state =
  cartItems :: "'i list"
  loading :: bool
  error :: "string option"
  cartId :: "string option"

type_synonym CartPage = "CartItem page_state"

text \<open>The two keys of \<^verbatim>\<open>localStorage\<close> that the pages read.\<close>

record localStorage =
  token :: "string option"
  guestToken :: "string option"

text \<open>\<^verbatim>\<open>navigate(path, { state: { orderId } })\<close> of react-router.\<close>

record navigation =
  path :: string
  orderId :: "string option"

text \<open>
  The world of a handler: the state of the page, \<^verbatim>\<open>localStorage\<close>, the requests issued so
  far and the navigations performed so far, both oldest first.
\<close>

record 'p world =
  page :: 'p
  store :: localStorage
  sent :: "request list"
  navigations :: "navigation list"

definition setCartItems :: "'i list \<Rightarrow> ('i, 'z) page_state_scheme world \<Rightarrow> ('i, 'z) page_state_scheme world" where
  "setCartItems v w = w\<lparr>page := (page w)\<lparr>cartItems := v\<rparr>\<rparr>"

definition setLoading :: "bool \<Rightarrow> ('i, 'z) page_state_scheme world \<Rightarrow> ('i, 'z) page_state_scheme world" where
  "setLoading v w = w\<lparr>page := (page w)\<lparr>loading := v\<rparr>\<rparr>"

definition setError :: "string option \<Rightarrow> ('i, 'z) page_state_scheme world \<Rightarrow> ('i, 'z) page_state_scheme world" where
  "setError v w = w\<lparr>page := (page w)\<lparr>error := v\<rparr>\<rparr>"

definition setCartId :: "string option \<Rightarrow> ('i, 'z) page_state_scheme world \<Rightarrow> ('i, 'z) page_state_scheme world" where
  "setCartId v w = w\<lparr>page := (page w)\<lparr>cartId := v\<rparr>\<rparr>"

definition fetch :: "request \<Rightarrow> 'p world \<Rightarrow> 'p world" where
  "fetch r w = w\<lparr>sent := sent w @ [r]\<rparr>"

definition navigate :: "navigation \<Rightarrow> 'p world \<Rightarrow> 'p world" where
  "navigate n w = w\<lparr>navigations := navigations w @ [n]\<rparr>"

text \<open>A \<^verbatim>\<open>string | null\<close> in a condition: true unless \<^verbatim>\<open>null\<close> or empty.\<close>

definition truthy :: "string option \<Rightarrow> bool" where
  "truthy s = (case s of None \<Rightarrow> False | Some v \<Rightarrow> v \<noteq> [])"

section \<open>Cart client (CartPage.tsx)\<close>

text \<open>\<^verbatim>\<open>mockCartItems\<close>, lines 39-58.\<close>

definition mockCartItems :: "CartItem list" where
  "mockCartItems =
    [\<lparr>id' = ''1'', productId = ''1'', name = name_fertilizer, price = 250000, quantity = 2,
      image' = ''/images/fertilizer.jpg'', category = category_fertilizer\<rparr>,
     \<lparr>id' = ''2'', productId = ''2'', name = name_seeds, price = 150000, quantity = 1,
      image' = ''/images/seeds.jpg'', category = category_seeds\<rparr>]"

text \<open>\<^verbatim>\<open>interface ApiCartItem\<close> and \<^verbatim>\<open>interface ApiCart\<close>, lines 19-36.\<close>

record ApiProduct =
  product_id :: string
  title :: string
  product_price :: int
  images :: "string list option"
  category_name :: "string option"

record ApiCartItem =
  item_id :: string
  item_quantity :: int
  product :: ApiProduct

record ApiCart =
  cart_id :: string
  items :: "ApiCartItem list"

text \<open>
  Lines 103-111, the view of one server item. \<^verbatim>\<open>images?.[0] || placeholder\<close> takes the
  placeholder when there is no array, no first element or an empty first element;
  \<^verbatim>\<open>category?.name || ...\<close> likewise.
\<close>

definition toCartItem :: "ApiCartItem \<Rightarrow> CartItem" where
  "toCartItem item =
    \<lparr>id' = item_id item,
     productId = product_id (product item),
     name = title (product item),
     price = product_price (product item),
     quantity = item_quantity item,
     image' = (case images (product item) of
                 Some (i # _) \<Rightarrow> if i \<noteq> [] then i else ''/images/placeholder.jpg''
               | _ \<Rightarrow> ''/images/placeholder.jpg''),
     category = (case category_name (product item) of
                   Some c \<Rightarrow> if c \<noteq> [] then c else category_default
                 | None \<Rightarrow> category_default)\<rparr>"

text \<open>
  The headers built at lines 79-85, 137-143 and 180-186: \<^verbatim>\<open>Content-Type\<close>, and
  \<^verbatim>\<open>Authorization\<close> when the token is truthy.
\<close>

definition json_headers :: "string option \<Rightarrow> (string \<times> string) list" where
  "json_headers tok =
    (''Content-Type'', ''application/json'') #
    (case tok of
       Some t \<Rightarrow> if t \<noteq> [] then [(''Authorization'', ''Bearer '' @ t)] else []
     | None \<Rightarrow> [])"

text \<open>
  \<^verbatim>\<open>fetchCart\<close>, lines 71-127. \<open>API_BASE_URL\<close> comes from \<^verbatim>\<open>@/lib/api-config\<close> and is a
  parameter; \<open>response\<close> is what the network answers to the one request.
\<close>

definition fetchCart_try ::
  "string \<Rightarrow> ApiCart fetch_result \<Rightarrow> CartPage world \<Rightarrow> CartPage world completion" where
  "fetchCart_try API_BASE_URL response w0 =
    (let w1 = setError None (setLoading True w0);
         headers = json_headers (token (store w1));
         url = (case guestToken (store w1) of
                  Some g \<Rightarrow> if g \<noteq> [] then API_BASE_URL @ ''/cart?guestToken='' @ g
                            else API_BASE_URL @ ''/cart''
                | None \<Rightarrow> API_BASE_URL @ ''/cart'');
         w2 = fetch \<lparr>url = url, method' = GET, headers = headers, body = None\<rparr> w1
     in case response of
          NetworkError \<Rightarrow> Throw NetworkFailure w2
        | Response ok js \<Rightarrow>
            if \<not> ok then Throw (Error ''Failed to fetch cart'') w2
            else (case js of
                    NotJson \<Rightarrow> Throw SyntaxError w2
                  | Json result \<Rightarrow>
                      (case data result of
                         Some apiCart \<Rightarrow>
                           if success result
                           then Normal (setCartItems (map toCartItem (items apiCart))
                                          (setCartId (Some (cart_id apiCart)) w2))
                           else Normal (setCartItems mockCartItems w2)
                       | None \<Rightarrow> Normal (setCartItems mockCartItems w2))))"

definition fetchCart ::
  "string \<Rightarrow> ApiCart fetch_result \<Rightarrow> CartPage world \<Rightarrow> CartPage world completion" where
  "fetchCart API_BASE_URL response w0 =
    try_finally
      (try_catch (fetchCart_try API_BASE_URL response w0)
         (\<lambda>err w. Normal (setCartItems mockCartItems (setError (Some msg_fetch_cart) w))))
      (setLoading False)"

text \<open>
  \<^verbatim>\<open>removeItem\<close>, lines 177-209. \<^verbatim>\<open>cartItems\<close> in the handler is the list of the render
  the handler was created in, the one of the world it starts from.
\<close>

definition removeItem_try ::
  "string \<Rightarrow> 'd fetch_result \<Rightarrow> string \<Rightarrow> CartPage world \<Rightarrow> CartPage world completion" where
  "removeItem_try API_BASE_URL response itemId w0 =
    (let headers = json_headers (token (store w0));
         w1 = fetch \<lparr>url = API_BASE_URL @ ''/cart/items/'' @ itemId, method' = DELETE,
                     headers = headers, body = None\<rparr> w0
     in case response of
          NetworkError \<Rightarrow> Throw NetworkFailure w1
        | Response ok js \<Rightarrow>
            if \<not> ok then Throw (Error ''Failed to remove item'') w1
            else Normal (setCartItems
                           (filter (\<lambda>item. id' item \<noteq> itemId) (cartItems (page w0))) w1))"

definition removeItem ::
  "string \<Rightarrow> 'd fetch_result \<Rightarrow> string \<Rightarrow> CartPage world \<Rightarrow> CartPage world completion" where
  "removeItem API_BASE_URL response itemId w0 =
    try_catch (removeItem_try API_BASE_URL response itemId w0)
      (\<lambda>err w. Normal (setCartItems
                          (filter (\<lambda>item. id' item \<noteq> itemId) (cartItems (page w0)))
                          (setError (Some msg_remove_item) w)))"

text \<open>\<^verbatim>\<open>updateQuantity\<close>, lines 129-175. The call of \<^verbatim>\<open>removeItem\<close> at line 131 is not awaited.\<close>

definition updateQuantity_try ::
  "string \<Rightarrow> 'd fetch_result \<Rightarrow> string \<Rightarrow> int \<Rightarrow> CartPage world \<Rightarrow> CartPage world completion" where
  "updateQuantity_try API_BASE_URL response itemId newQuantity w0 =
    (let headers = json_headers (token (store w0));
         w1 = fetch \<lparr>url = API_BASE_URL @ ''/cart/items/'' @ itemId, method' = PUT,
                     headers = headers, body = Some (QuantityBody newQuantity)\<rparr> w0
     in case response of
          NetworkError \<Rightarrow> Throw NetworkFailure w1
        | Response ok js \<Rightarrow>
            if \<not> ok then Throw (Error ''Failed to update item'') w1
            else Normal (setCartItems
                           (map (\<lambda>item. if id' item = itemId
                                         then item\<lparr>quantity := newQuantity\<rparr> else item)
                              (cartItems (page w0))) w1))"

definition updateQuantity ::
  "string \<Rightarrow> 'd fetch_result \<Rightarrow> string \<Rightarrow> int \<Rightarrow> CartPage world \<Rightarrow> CartPage world completion" where
  "updateQuantity API_BASE_URL response itemId newQuantity w0 =
    (if newQuantity \<le> 0 then not_awaited (removeItem API_BASE_URL response itemId w0)
     else try_catch (updateQuantity_try API_BASE_URL response itemId newQuantity w0)
            (\<lambda>err w. Normal (setCartItems
                                (map (\<lambda>item. if id' item = itemId
                                              then item\<lparr>quantity := newQuantity\<rparr> else item)
                                   (cartItems (page w0)))
                                (setError (Some msg_update_quantity) w))))"

section \<open>Checkout orchestrator (CheckoutPage.tsx)\<close>

text \<open>\<^verbatim>\<open>interface Address\<close>, lines 17-27, and the further state cells, lines 39-45.\<close>

record Address =
  address_id :: string
  address_title :: string
  fullName :: string
  street :: string
  city :: string
  province :: string
  postalCode :: string
  phone :: string
  isDefault :: "bool option"

datatype payment_method = credit_card | bank_transfer | cash_on_delivery

record CheckoutPage = "LineItem page_state" +
  addresses :: "Address list"
  submitting :: bool
  selectedAddressId :: string
  paymentMethod :: payment_method
  notes' :: string

definition setSubmitting :: "bool \<Rightarrow> CheckoutPage world \<Rightarrow> CheckoutPage world" where
  "setSubmitting v w = w\<lparr>page := (page w)\<lparr>submitting := v\<rparr>\<rparr>"

definition removeGuestToken :: "'p world \<Rightarrow> 'p world" where
  "removeGuestToken w = w\<lparr>store := (store w)\<lparr>guestToken := None\<rparr>\<rparr>"

text \<open>The \<^verbatim>\<open>data\<close> of the answer to the order request: \<^verbatim>\<open>{id}\<close>.\<close>

record OrderData =
  order_id :: string

text \<open>
  \<^verbatim>\<open>handlePlaceOrder\<close>, lines 113-165. The first argument of \<^verbatim>\<open>fetch\<close> at line 140 is
  written between double quotes, \<^verbatim>\<open>"${API_BASE_URL}/orders"\<close>: a plain string, in which
  nothing is substituted. The \<^verbatim>\<open>return\<close> at line 132 is inside the \<^verbatim>\<open>try\<close>, so the
  \<^verbatim>\<open>finally\<close> block runs after it. At line 155 \<^verbatim>\<open>result.data.id\<close> throws a TypeError when
  the envelope has no \<^verbatim>\<open>data\<close>.
\<close>

definition handlePlaceOrder_try ::
  "OrderData fetch_result \<Rightarrow> string \<Rightarrow> CheckoutPage world \<Rightarrow> CheckoutPage world completion" where
  "handlePlaceOrder_try response cartId' w0 =
    (let w1 = setError None (setSubmitting True w0) in
     case token (store w1) of
       None \<Rightarrow> Normal (navigate \<lparr>path = ''/login'', orderId = None\<rparr>
                        (setError (Some msg_login_first) w1))
     | Some tok \<Rightarrow>
         if tok = []
         then Normal (navigate \<lparr>path = ''/login'', orderId = None\<rparr>
                        (setError (Some msg_login_first) w1))
         else
           (let headers = [(''Content-Type'', ''application/json''),
                           (''Authorization'', ''Bearer '' @ tok)];
                w2 = fetch \<lparr>url = ''${API_BASE_URL}/orders'', method' = POST,
                            headers = headers, body = Some (CartIdBody cartId')\<rparr> w1
            in case response of
                 NetworkError \<Rightarrow> Throw NetworkFailure w2
               | Response ok js \<Rightarrow>
                   if \<not> ok then Throw (Error ''Failed to place order'') w2
                   else (case js of
                           NotJson \<Rightarrow> Throw SyntaxError w2
                         | Json result \<Rightarrow>
                             if success result
                             then (case data result of
                                     None \<Rightarrow> Throw TypeError (removeGuestToken w2)
                                   | Some d \<Rightarrow>
                                       Normal (navigate \<lparr>path = ''/order-success'',
                                                         orderId = Some (order_id d)\<rparr>
                                                 (removeGuestToken w2)))
                             else Normal (setError
                                            (if truthy (message result) then message result
                                             else Some msg_order_failed) w2))))"

text \<open>
  The guards of lines 114-122 come first; \<open>cartId'\<close> is the cart identifier that passed
  the first of them.
\<close>

definition handlePlaceOrder ::
  "OrderData fetch_result \<Rightarrow> CheckoutPage world \<Rightarrow> CheckoutPage world completion" where
  "handlePlaceOrder response w0 =
    (case cartId (page w0) of
       None \<Rightarrow> Normal (setError (Some msg_no_cart) w0)
     | Some cartId' \<Rightarrow>
         if cartId' = [] then Normal (setError (Some msg_no_cart) w0)
         else if selectedAddressId (page w0) = [] \<and> length (addresses (page w0)) > 0
         then Normal (setError (Some msg_select_address) w0)
         else try_finally
                (try_catch (handlePlaceOrder_try response cartId' w0)
                   (\<lambda>err w. Normal (setError (Some msg_order_retry) w)))
                (setSubmitting False))"

section \<open>Vocabulary of the properties\<close>

text \<open>
  The request went through: the promise of \<^verbatim>\<open>fetch\<close> resolved and \<^verbatim>\<open>response.ok\<close> holds.
\<close>

fun request_ok :: "'d fetch_result \<Rightarrow> bool" where
  "request_ok NetworkError = False"
| "request_ok (Response ok js) = ok"

text \<open>
  The ways a cart fetch fails: something is thrown inside the \<^verbatim>\<open>try\<close> block (the network
  fails, the status is not OK, the body is not JSON), or the body is an envelope that the
  test of line 99, \<^verbatim>\<open>result.success && result.data\<close>, rejects.
\<close>

fun fetch_throws :: "'d fetch_result \<Rightarrow> bool" where
  "fetch_throws NetworkError = True"
| "fetch_throws (Response ok NotJson) = True"
| "fetch_throws (Response ok (Json result)) = (\<not> ok)"

fun envelope_rejected :: "'d fetch_result \<Rightarrow> bool" where
  "envelope_rejected (Response ok (Json result)) = (ok \<and> \<not> (success result \<and> data result \<noteq> None))"
| "envelope_rejected _ = False"

text \<open>The cart page as it is mounted (the initial values of lines 62-65), for a guest.\<close>

definition mounted_cart :: "CartPage world" where
  "mounted_cart =
    \<lparr>page = \<lparr>cartItems = [], loading = True, error = None, cartId = None\<rparr>,
     store = \<lparr>token = None, guestToken = Some ''g-1''\<rparr>,
     sent = [], navigations = []\<rparr>"

text \<open>The cart page showing the two mock items.\<close>

definition shown_cart :: "CartPage world" where
  "shown_cart =
    \<lparr>page = \<lparr>cartItems = mockCartItems, loading = False, error = None, cartId = Some ''c-1''\<rparr>,
     store = \<lparr>token = Some ''t-1'', guestToken = None\<rparr>,
     sent = [], navigations = []\<rparr>"

text \<open>
  The checkout page of a visitor with the given token, cart identifier, saved addresses
  and selected address; the other cells have the initial values of lines 37-45 after
  loading.
\<close>

definition checkout_of ::
  "string option \<Rightarrow> string option \<Rightarrow> Address list \<Rightarrow> string \<Rightarrow> CheckoutPage world" where
  "checkout_of tok cid addrs sel =
    \<lparr>page = \<lparr>cartItems = [line 250000 2, line 150000 1], loading = False, error = None,
             cartId = cid, addresses = addrs, submitting = False, selectedAddressId = sel,
             paymentMethod = cash_on_delivery, notes' = []\<rparr>,
     store = \<lparr>token = tok, guestToken = Some ''g-1''\<rparr>,
     sent = [], navigations = []\<rparr>"

definition home_address :: Address where
  "home_address =
    \<lparr>address_id = ''a-1'', address_title = ''home'', fullName = ''A B'', street = ''S'',
     city = ''C'', province = ''P'', postalCode = ''1'', phone = ''2'', isDefault = None\<rparr>"

section \<open>Properties of the pricing calculator\<close>

subsection \<open>Rounding to 53 significant bits\<close>

lemma Math_round_times_0_09_0: "Math_round (times_0_09 0) = 0"
  by code_simp

lemma round_significand_cases:
  assumes "0 < n"
  obtains (exact) "n < 2 ^ 53" "round_significand n = n"
  | (rounded) k where "0 < k" "2 ^ (k + 52) \<le> n" "n < 2 ^ (k + 53)"
      "round_significand n =
        (if 2 ^ (k - 1) < n mod 2 ^ k \<or> (n mod 2 ^ k = 2 ^ (k - 1) \<and> odd (n div 2 ^ k))
         then n div 2 ^ k + 1 else n div 2 ^ k) * 2 ^ k"
proof -
  define k where "k = nat (bitlen n - 53)"
  have b: "2 ^ nat (bitlen n - 1) \<le> n" "n < 2 ^ nat (bitlen n)"
    using bitlen_bounds [OF assms] by simp_all
  have an: "\<bar>n\<bar> = n" "sgn n = 1"
    using assms by simp_all
  have rs: "round_significand n =
      (if k = 0 then n
       else (if 2 ^ (k - 1) < n mod 2 ^ k \<or> (n mod 2 ^ k = 2 ^ (k - 1) \<and> odd (n div 2 ^ k))
             then n div 2 ^ k + 1 else n div 2 ^ k) * 2 ^ k)"
    unfolding round_significand_def Let_def an k_def by simp
  show thesis
  proof (cases "k = 0")
    case True
    then have "bitlen n \<le> 53" by (simp add: k_def)
    then have "nat (bitlen n) \<le> 53" by simp
    then have "(2::int) ^ nat (bitlen n) \<le> 2 ^ 53"
      by (intro power_increasing) simp_all
    with b(2) have "n < 2 ^ 53" by linarith
    moreover have "round_significand n = n"
      using True by (simp add: rs)
    ultimately show thesis by (rule exact)
  next
    case False
    then have k: "0 < k" by simp
    then have bl: "bitlen n = int k + 53" by (simp add: k_def)
    have "nat (bitlen n - 1) = k + 52" "nat (bitlen n) = k + 53"
      by (simp_all add: bl nat_add_distrib)
    with b have "2 ^ (k + 52) \<le> n" "n < 2 ^ (k + 53)" by simp_all
    moreover have "round_significand n =
        (if 2 ^ (k - 1) < n mod 2 ^ k \<or> (n mod 2 ^ k = 2 ^ (k - 1) \<and> odd (n div 2 ^ k))
         then n div 2 ^ k + 1 else n div 2 ^ k) * 2 ^ k"
      using k by (simp add: rs)
    ultimately show thesis using k by (intro rounded [of k])
  qed
qed

lemma round_significand_error:
  assumes "0 < n"
  shows "n * 2 ^ 53 - n \<le> round_significand n * 2 ^ 53"
    and "round_significand n * 2 ^ 53 \<le> n * 2 ^ 53 + n"
proof -
  have "n * 2 ^ 53 - n \<le> round_significand n * 2 ^ 53
      \<and> round_significand n * 2 ^ 53 \<le> n * 2 ^ 53 + n"
    using assms
  proof (cases rule: round_significand_cases)
    case exact
    with assms show ?thesis by simp
  next
    case (rounded k)
    define h :: int where "h = 2 ^ (k - 1)"
    define Q where "Q = n div 2 ^ k * 2 ^ k"
    define r where "r = n mod 2 ^ k"
    have pk: "(2::int) ^ k = 2 * h"
      using rounded(1) by (simp add: h_def power_eq_if)
    have p52: "(2::int) ^ (k + 52) = h * 2 ^ 53"
      using rounded(1) by (simp add: h_def power_eq_if power_add)
    have n: "n = Q + r"
      unfolding Q_def r_def by (rule div_mult_mod_eq [symmetric])
    have r: "0 \<le> r" "r < 2 * h"
      using pk by (simp_all add: r_def flip: pk)
    have hn: "h * 2 ^ 53 \<le> n"
      using rounded(2) by (simp add: p52)
    have up: "(n div 2 ^ k + 1) * 2 ^ k = Q + 2 * h"
      by (simp add: Q_def algebra_simps pk)
    show ?thesis
    proof (cases "2 ^ (k - 1) < n mod 2 ^ k \<or> (n mod 2 ^ k = 2 ^ (k - 1) \<and> odd (n div 2 ^ k))")
      case True
      then have "round_significand n = Q + 2 * h"
        using rounded(4) up by simp
      moreover from True have "h \<le> r"
        by (auto simp add: h_def r_def)
      ultimately show ?thesis
        using n r hn by simp
    next
      case False
      then have "round_significand n = Q"
        using rounded(4) by (simp add: Q_def)
      moreover from False have "r \<le> h"
        by (auto simp add: h_def r_def)
      ultimately show ?thesis
        using n r hn by simp
    qed
  qed
  then show "n * 2 ^ 53 - n \<le> round_significand n * 2 ^ 53"
    and "round_significand n * 2 ^ 53 \<le> n * 2 ^ 53 + n"
    by simp_all
qed

lemma round_significand_up_to:
  assumes "0 < n" and "2 ^ 53 \<le> n" and "n < 2 ^ 108"
    and "n < T" and "2 ^ 55 dvd T" and "(T - n) * 2 ^ 54 \<le> n"
  shows "round_significand n = T"
  using assms(1)
proof (cases rule: round_significand_cases)
  case exact
  with assms(2) show ?thesis by simp
next
  case (rounded k)
  define h :: int where "h = 2 ^ (k - 1)"
  define q where "q = n div 2 ^ k"
  define r where "r = n mod 2 ^ k"
  have h: "0 < h" by (simp add: h_def)
  have pk: "(2::int) ^ k = 2 * h"
    using rounded(1) by (simp add: h_def power_eq_if)
  have p53: "(2::int) ^ (k + 53) = h * 2 ^ 54"
    using rounded(1) by (simp add: h_def power_eq_if power_add)
  have "n = n div 2 ^ k * 2 ^ k + n mod 2 ^ k"
    by (rule div_mult_mod_eq [symmetric])
  then have n: "n = q * (2 * h) + r"
    by (simp only: q_def r_def pk)
  have r: "0 \<le> r" "r < 2 * h"
    by (simp_all add: r_def flip: pk)
  have "(2::int) ^ (k + 52) < 2 ^ 108"
    using rounded(2) assms(3) by linarith
  then have "k + 52 < 108"
    by (simp only: power_strict_increasing_iff [of "2::int"] rel_simps)
  then have "k \<le> 55" by simp
  then have "(2::int) ^ k dvd 2 ^ 55"
    by (rule le_imp_power_dvd)
  then have "2 * h dvd T"
    using assms(5) pk by (metis dvd_trans)
  then obtain c where T: "T = c * (2 * h)"
    by (auto simp add: dvd_def mult.commute)
  have close: "T - n < h"
    using assms(6) rounded(3) by (simp add: p53)
  have "q < c"
  proof (rule ccontr)
    assume "\<not> q < c"
    then have "c * (2 * h) \<le> q * (2 * h)"
      using h by (intro mult_right_mono) simp_all
    with assms(4) n T r show False by simp
  qed
  moreover have "c < q + 2"
  proof (rule ccontr)
    assume "\<not> c < q + 2"
    then have "(q + 2) * (2 * h) \<le> c * (2 * h)"
      using h by (intro mult_right_mono) simp_all
    then have "q * (2 * h) + 4 * h \<le> T"
      by (simp add: T algebra_simps)
    with close n r show False by simp
  qed
  ultimately have "c = q + 1" by simp
  then have T': "T = q * (2 * h) + 2 * h"
    by (simp add: T algebra_simps)
  with close n have "h < r" by simp
  then have "2 ^ (k - 1) < n mod 2 ^ k"
    by (simp add: h_def r_def)
  then have "round_significand n = (n div 2 ^ k + 1) * 2 ^ k"
    using rounded(4) by simp
  also have "\<dots> = T"
    by (simp add: T' pk q_def algebra_simps)
  finally show ?thesis .
qed

lemma Math_round_times_0_09_half_up:
  assumes "0 \<le> s" and "s \<le> 100000000000000"
  shows "Math_round (times_0_09 s) = (9 * s + 50) div 100"
proof (cases "s \<le> 1")
  case True
  with assms(1) have "s = 0 \<or> s = 1" by auto
  moreover have "Math_round (times_0_09 1) = 0" by code_simp
  ultimately show ?thesis
    by (auto simp add: Math_round_times_0_09_0)
next
  case False
  then have s2: "2 \<le> s" and s: "1 \<le> s" by simp_all
  define t where "t = (9 * s + 50) div 100"
  define m where "m = (9 * s + 50) mod 100"
  define n where "n = s * 6485183463413514"
  define R where "R = round_significand n"
  have "9 * s + 50 = 100 * t + m" "0 \<le> m" "m < 100"
    by (simp_all add: t_def m_def)
  then have t: "100 * t \<le> 9 * s + 50" "9 * s + 50 < 100 * t + 100"
    by simp_all
  have n: "0 < n"
    using s by (simp add: n_def)
  have lo: "t * 72057594037927936 \<le> R + 36028797018963968"
  proof (cases "9 * s + 50 = 100 * t")
    case tie: True
    have "round_significand n = (2 * t - 1) * 2 ^ 55"
    proof (rule round_significand_up_to [OF n])
      show "2 ^ 53 \<le> n" using s2 by (simp add: n_def)
      show "n < 2 ^ 108" using assms(2) by (simp add: n_def)
      show "n < (2 * t - 1) * 2 ^ 55" using tie s by (simp add: n_def)
      show "2 ^ 55 dvd (2 * t - 1) * 2 ^ 55" by (rule dvd_triv_right)
      show "((2 * t - 1) * 2 ^ 55 - n) * 2 ^ 54 \<le> n" using tie s by (simp add: n_def)
    qed
    then show ?thesis by (simp add: R_def)
  next
    case False
    with t have "100 * t + 1 \<le> 9 * s + 50" by simp
    moreover have "n * 2 ^ 53 - n \<le> R * 2 ^ 53"
      unfolding R_def by (rule round_significand_error [OF n])
    ultimately show ?thesis
      using assms(2) s by (simp add: n_def)
  qed
  have "R * 2 ^ 53 \<le> n * 2 ^ 53 + n"
    unfolding R_def by (rule round_significand_error [OF n])
  then have hi: "R + 36028797018963968 < (t + 1) * 72057594037927936"
    using t(2) assms(2) s by (simp add: n_def)
  have "(R + 36028797018963968) div 72057594037927936 = t"
  proof (rule int_div_pos_eq)
    show "R + 36028797018963968 = 72057594037927936 * t + (R + 36028797018963968 - t * 72057594037927936)"
      by simp
    show "0 \<le> R + 36028797018963968 - t * 72057594037927936" using lo by simp
    show "R + 36028797018963968 - t * 72057594037927936 < 72057594037927936" using hi by simp
  qed
  then show ?thesis
    by (simp add: Math_round_def times_0_09_def double_0_09_def R_def n_def t_def)
qed

lemma round_significand_minus: "round_significand (- n) = - round_significand n"
  by (simp add: round_significand_def Let_def)

lemma round_significand_2_53: "round_significand 9007199254740992 = 9007199254740992"
  by code_simp

lemma round_significand_exact:
  assumes "\<bar>n\<bar> \<le> 2 ^ 53"
  shows "round_significand n = n"
proof -
  have pos: "round_significand m = m" if "0 < m" "m \<le> 2 ^ 53" for m
  proof (cases "m = 2 ^ 53")
    case True
    then show ?thesis by (simp add: round_significand_2_53)
  next
    case False
    with that have less: "m < 2 ^ 53" by simp
    from \<open>0 < m\<close> show ?thesis
    proof (cases rule: round_significand_cases)
      case exact
      then show ?thesis by simp
    next
      case (rounded k)
      have "(2::int) ^ 53 \<le> 2 ^ (k + 52)"
        using rounded(1) by (intro power_increasing) simp_all
      with rounded(2) less show ?thesis by simp
    qed
  qed
  consider "0 < n" | "n = 0" | "n < 0" by linarith
  then show ?thesis
  proof cases
    case 1
    with assms show ?thesis by (intro pos) simp_all
  next
    case 2
    then show ?thesis by (simp add: round_significand_def)
  next
    case 3
    with assms have "round_significand (- n) = - n" by (intro pos) simp_all
    then show ?thesis by (simp add: round_significand_minus)
  qed
qed

lemma overflow_exact:
  assumes "\<bar>n\<bar> \<le> 2 ^ 53"
  shows "overflow n = Num n"
proof -
  have "(2::int) ^ 53 < 2 ^ 1024"
    by (rule power_strict_increasing) simp_all
  with assms have "\<not> 2 ^ 1024 \<le> n" "\<not> n \<le> - (2 ^ 1024)"
    by linarith+
  then show ?thesis
    unfolding overflow_def by (simp only: if_False)
qed

lemma double_mult_exact: "\<bar>a * b\<bar> \<le> 2 ^ 53 \<Longrightarrow> double_mult a b = Num (a * b)"
  by (simp only: double_mult_def round_significand_exact overflow_exact)

lemma double_add_exact: "\<bar>a + b\<bar> \<le> 2 ^ 53 \<Longrightarrow> double_add (Num a) (Num b) = Num (a + b)"
  by (simp only: double_add.simps round_significand_exact overflow_exact)

subsection \<open>Exact sums\<close>

lemma foldl_exact_sums:
  "exact_sums acc xs \<Longrightarrow>
   foldl (\<lambda>sum item. double_add sum (double_mult (price item) (quantity item))) (Num acc) xs
     = Num (acc + (\<Sum>item\<leftarrow>xs. price item * quantity item))"
proof (induction xs arbitrary: acc)
  case Nil
  show ?case by simp
next
  case (Cons item xs)
  from Cons.prems have p: "\<bar>price item * quantity item\<bar> \<le> 2 ^ 53"
    and a: "\<bar>acc + price item * quantity item\<bar> \<le> 2 ^ 53"
    and rest: "exact_sums (acc + price item * quantity item) xs"
    by simp_all
  have "double_add (Num acc) (double_mult (price item) (quantity item))
      = Num (acc + price item * quantity item)"
    by (simp only: double_mult_exact [OF p] double_add_exact [OF a])
  then show ?case
    using Cons.IH [OF rest] by (simp add: add.assoc)
qed

lemma subtotal_exact:
  "exact_sums 0 xs \<Longrightarrow> subtotal xs = Num (\<Sum>item\<leftarrow>xs. price item * quantity item)"
  using foldl_exact_sums [of 0 xs] by (simp add: subtotal_def)

lemma subtotal_Nil: "subtotal [] = Num 0"
  by (simp add: subtotal_def)


lemma subtotal_two_lines: "subtotal [line 250000 2, line 150000 1] = Num 650000"
  using subtotal_exact [of "[line 250000 2, line 150000 1]"] by (simp add: line_def)


subsection \<open>Subtotal and total\<close>

text \<open>
  Claim C1, as the code has it. The amounts are doubles. For every list of cart items in
  which no product of a price and a quantity and no partial sum exceeds \<open>2 ^ 53\<close> in
  magnitude, the subtotal is the sum over the items of price times quantity. Whenever
  subtotal, shipping and tax are the integers \<open>s\<close>, \<open>sh\<close> and \<open>t\<close> and neither \<open>s + sh\<close>
  nor \<open>s + sh + t\<close> exceeds \<open>2 ^ 53\<close> in magnitude, the total is \<open>s + sh + t\<close>. For the
  two items of price 250000, quantity 2 and price 150000, quantity 1 the calculator returns
  subtotal 650000, shipping 50000, tax 58500 and total 758500.
\<close>

theorem pricing_subtotal_and_total:
  "(exact_sums 0 xs \<longrightarrow>
      subtotal xs = Num (\<Sum>item\<leftarrow>xs. price item * quantity item))
   \<and> (subtotal xs = Num s \<and> shipping xs = Num sh \<and> tax xs = Num t
        \<and> \<bar>s + sh\<bar> \<le> 2 ^ 53 \<and> \<bar>s + sh + t\<bar> \<le> 2 ^ 53 \<longrightarrow>
      total' xs = Num (s + sh + t))
   \<and> subtotal [line 250000 2, line 150000 1] = Num 650000
   \<and> shipping [line 250000 2, line 150000 1] = Num 50000
   \<and> tax [line 250000 2, line 150000 1] = Num 58500
   \<and> total' [line 250000 2, line 150000 1] = Num 758500"
proof -
  have gen: "total' ys = Num (a + b + c)"
    if "subtotal ys = Num a" "shipping ys = Num b" "tax ys = Num c"
      "\<bar>a + b\<bar> \<le> 2 ^ 53" "\<bar>a + b + c\<bar> \<le> 2 ^ 53"
    for ys :: "'b LineItem_scheme list" and a b c
    using that
    by (simp only: total'_def double_add_exact)
  have s: "subtotal [line 250000 2, line 150000 1] = Num 650000"
    by (rule subtotal_two_lines)
  have sh: "shipping [line 250000 2, line 150000 1] = Num 50000"
    by (simp add: shipping_def s)
  have "Math_round (times_0_09 650000) = (9 * 650000 + 50) div 100"
    by (rule Math_round_times_0_09_half_up) simp_all
  then have t: "tax [line 250000 2, line 150000 1] = Num 58500"
    by (simp add: tax_def s)
  have tot: "total' [line 250000 2, line 150000 1] = Num 758500"
    using gen [OF s sh t] by simp
  show ?thesis
    using s sh t tot gen [of xs s sh t] by (simp add: subtotal_exact)
qed

theorem pricing_subtotal_and_total_witness:
  "exact_sums 0 [line 1000000 3, line 2500 4]
   \<and> subtotal [line 1000000 3, line 2500 4] = Num 3010000
   \<and> shipping [line 1000000 3, line 2500 4] = Num 0
   \<and> tax [line 1000000 3, line 2500 4] = Num 270900
   \<and> \<bar>3010000 + 0\<bar> \<le> (2::int) ^ 53 \<and> \<bar>3010000 + 0 + 270900\<bar> \<le> (2::int) ^ 53
   \<and> total' [line 1000000 3, line 2500 4] = Num 3280900"
proof -
  have e: "exact_sums 0 [line 1000000 3, line 2500 4]"
    by (simp add: line_def)
  note c1 = pricing_subtotal_and_total [of "[line 1000000 3, line 2500 4]" 3010000 0 270900]
  have s: "subtotal [line 1000000 3, line 2500 4] = Num 3010000"
    using c1 [THEN conjunct1, rule_format, OF e] by (simp add: line_def)
  have sh: "shipping [line 1000000 3, line 2500 4] = Num 0"
    by (simp add: shipping_def s)
  have "Math_round (times_0_09 3010000) = (9 * 3010000 + 50) div 100"
    by (rule Math_round_times_0_09_half_up) simp_all
  then have t: "tax [line 1000000 3, line 2500 4] = Num 270900"
    by (simp add: tax_def s)
  have b: "\<bar>3010000 + 0\<bar> \<le> (2::int) ^ 53" "\<bar>3010000 + 0 + 270900\<bar> \<le> (2::int) ^ 53"
    by simp_all
  have "total' [line 1000000 3, line 2500 4] = Num (3010000 + 0 + 270900)"
    using c1 [THEN conjunct2, THEN conjunct1, rule_format] s sh t b by blast
  with e s sh t show ?thesis by simp
qed

text \<open>
  Claim C1 as stated fails beyond \<open>2 ^ 53\<close>. The product of price 94906267 and quantity
  94906267 is 9007199515875289, and the subtotal is the double 9007199515875288. For one
  item of price 9007199254740990 the subtotal, shipping and tax are 9007199254740990, 0
  and 810647932926689, and the total is the double 9817847187667680, one more than their
  sum.
\<close>

theorem pricing_sums_round_beyond_2_53:
  "subtotal [line 94906267 94906267] \<noteq> Num (94906267 * 94906267)
   \<and> subtotal [line 9007199254740990 1] = Num 9007199254740990
   \<and> shipping [line 9007199254740990 1] = Num 0
   \<and> tax [line 9007199254740990 1] = Num 810647932926689
   \<and> total' [line 9007199254740990 1] \<noteq> Num (9007199254740990 + 0 + 810647932926689)"
proof -
  have "subtotal [line 94906267 94906267] = Num 9007199515875288"
    by code_simp
  moreover have "subtotal [line 9007199254740990 1] = Num 9007199254740990"
    and "shipping [line 9007199254740990 1] = Num 0"
    and "tax [line 9007199254740990 1] = Num 810647932926689"
    and "total' [line 9007199254740990 1] = Num 9817847187667680"
    by code_simp+
  ultimately show ?thesis by simp
qed

subsection \<open>Shipping\<close>



text \<open>
  Claim C3, as the code has it. For the empty item list the calculator yields subtotal 0
  and tax 0; the shipping fee is the flat 50000, since the subtotal does not exceed the
  threshold, and the total is 50000. (Both pages render their empty-cart view instead of
  the summary when the list is empty.)
\<close>

theorem pricing_empty_list:
  "subtotal ([] :: 'a LineItem_scheme list) = Num 0
   \<and> shipping ([] :: 'a LineItem_scheme list) = Num 50000
   \<and> tax ([] :: 'a LineItem_scheme list) = Num 0
   \<and> total' ([] :: 'a LineItem_scheme list) = Num 50000"
proof -
  have t: "tax ([] :: 'a LineItem_scheme list) = Num 0"
    by (simp add: tax_def subtotal_Nil Math_round_times_0_09_0)
  have sh: "shipping ([] :: 'a LineItem_scheme list) = Num 50000"
    by (simp add: shipping_def subtotal_Nil)
  have "double_add (double_add (Num 0) (Num 50000)) (Num 0) = Num 50000"
    by code_simp
  then show ?thesis
    by (simp add: t sh total'_def subtotal_Nil)
qed

text \<open>
  Claim C3 as stated (all four outputs are 0 on the empty list) fails: shipping and total
  are 50000.
\<close>

theorem pricing_empty_list_not_all_zero:
  "\<not> (subtotal ([] :: LineItem list) = Num 0 \<and> shipping ([] :: LineItem list) = Num 0
      \<and> tax ([] :: LineItem list) = Num 0 \<and> total' ([] :: LineItem list) = Num 0)"
  by (simp add: shipping_def subtotal_Nil)

subsection \<open>Tax\<close>




text \<open>
  Beyond the largest double the sums are infinite: the product of \<open>2 ^ 1023\<close> and 2
  overflows, the subtotal is \<^verbatim>\<open>Infinity\<close>, shipping is free, tax and total are \<^verbatim>\<open>Infinity\<close>.
\<close>

lemma pricing_overflow:
  "subtotal [line (2 ^ 1023) 2] = Infinity"
  "shipping [line (2 ^ 1023) 2] = Num 0"
  "tax [line (2 ^ 1023) 2] = Infinity"
  "total' [line (2 ^ 1023) 2] = Infinity"
proof -
  show s: "subtotal [line (2 ^ 1023) 2] = Infinity"
    by code_simp
  show sh: "shipping [line (2 ^ 1023) 2] = Num 0"
    by (simp only: shipping_def s greater_than.simps if_True)
  show t: "tax [line (2 ^ 1023) 2] = Infinity"
    by (simp only: tax_def s round_times_0_09.simps)
  show "total' [line (2 ^ 1023) 2] = Infinity"
    by (simp only: total'_def s sh t double_add.simps)
qed


section \<open>Properties of the cart client\<close>

lemma page_setCartItems [simp]: "cartItems (page (setCartItems v w)) = v"
  "error (page (setCartItems v w)) = error (page w)"
  "loading (page (setCartItems v w)) = loading (page w)"
  "cartId (page (setCartItems v w)) = cartId (page w)"
  "sent (setCartItems v w) = sent w" "store (setCartItems v w) = store w"
  "navigations (setCartItems v w) = navigations w"
  by (simp_all add: setCartItems_def)

lemma page_setError [simp]: "error (page (setError v w)) = v"
  "cartItems (page (setError v w)) = cartItems (page w)"
  "loading (page (setError v w)) = loading (page w)"
  "cartId (page (setError v w)) = cartId (page w)"
  "sent (setError v w) = sent w" "store (setError v w) = store w"
  "navigations (setError v w) = navigations w"
  by (simp_all add: setError_def)

lemma page_setLoading [simp]: "loading (page (setLoading v w)) = v"
  "cartItems (page (setLoading v w)) = cartItems (page w)"
  "error (page (setLoading v w)) = error (page w)"
  "cartId (page (setLoading v w)) = cartId (page w)"
  "sent (setLoading v w) = sent w" "store (setLoading v w) = store w"
  "navigations (setLoading v w) = navigations w"
  by (simp_all add: setLoading_def)

lemma page_setCartId [simp]: "cartId (page (setCartId v w)) = v"
  "cartItems (page (setCartId v w)) = cartItems (page w)"
  "error (page (setCartId v w)) = error (page w)"
  "loading (page (setCartId v w)) = loading (page w)"
  "sent (setCartId v w) = sent w" "store (setCartId v w) = store w"
  "navigations (setCartId v w) = navigations w"
  by (simp_all add: setCartId_def)

lemma world_fetch [simp]: "page (fetch r w) = page w" "sent (fetch r w) = sent w @ [r]"
  "store (fetch r w) = store w" "navigations (fetch r w) = navigations w"
  by (simp_all add: fetch_def)

lemma world_navigate [simp]: "page (navigate n w) = page w" "sent (navigate n w) = sent w"
  "store (navigate n w) = store w" "navigations (navigate n w) = navigations w @ [n]"
  by (simp_all add: navigate_def)

lemma mockCartItems_not_empty: "mockCartItems \<noteq> []"
  by (simp add: mockCartItems_def)

subsection \<open>What each handler returns\<close>

lemma removeItem_ok:
  "request_ok response \<Longrightarrow>
   removeItem API_BASE_URL response itemId w =
     Normal (setCartItems (filter (\<lambda>item. id' item \<noteq> itemId) (cartItems (page w)))
               (fetch \<lparr>url = API_BASE_URL @ ''/cart/items/'' @ itemId, method' = DELETE,
                       headers = json_headers (token (store w)), body = None\<rparr> w))"
  by (cases response) (simp_all add: removeItem_def removeItem_try_def try_catch_def)

lemma removeItem_failed:
  "\<not> request_ok response \<Longrightarrow>
   removeItem API_BASE_URL response itemId w =
     Normal (setCartItems (filter (\<lambda>item. id' item \<noteq> itemId) (cartItems (page w)))
               (setError (Some msg_remove_item)
                  (fetch \<lparr>url = API_BASE_URL @ ''/cart/items/'' @ itemId, method' = DELETE,
                          headers = json_headers (token (store w)), body = None\<rparr> w)))"
  by (cases response) (simp_all add: removeItem_def removeItem_try_def try_catch_def)

lemma removeItem_completes:
  "\<not> propagates (removeItem API_BASE_URL response itemId w)"
  by (cases "request_ok response") (simp_all add: removeItem_ok removeItem_failed)

lemma updateQuantity_ok:
  "0 < newQuantity \<Longrightarrow> request_ok response \<Longrightarrow>
   updateQuantity API_BASE_URL response itemId newQuantity w =
     Normal (setCartItems
               (map (\<lambda>item. if id' item = itemId then item\<lparr>quantity := newQuantity\<rparr> else item)
                  (cartItems (page w)))
               (fetch \<lparr>url = API_BASE_URL @ ''/cart/items/'' @ itemId, method' = PUT,
                       headers = json_headers (token (store w)),
                       body = Some (QuantityBody newQuantity)\<rparr> w))"
  by (cases response) (simp_all add: updateQuantity_def updateQuantity_try_def try_catch_def)

lemma updateQuantity_failed:
  "0 < newQuantity \<Longrightarrow> \<not> request_ok response \<Longrightarrow>
   updateQuantity API_BASE_URL response itemId newQuantity w =
     Normal (setCartItems
               (map (\<lambda>item. if id' item = itemId then item\<lparr>quantity := newQuantity\<rparr> else item)
                  (cartItems (page w)))
               (setError (Some msg_update_quantity)
                  (fetch \<lparr>url = API_BASE_URL @ ''/cart/items/'' @ itemId, method' = PUT,
                          headers = json_headers (token (store w)),
                          body = Some (QuantityBody newQuantity)\<rparr> w)))"
  by (cases response) (simp_all add: updateQuantity_def updateQuantity_try_def try_catch_def)

lemma updateQuantity_cartItems:
  "0 < newQuantity \<Longrightarrow>
   cartItems (page (state_of (updateQuantity API_BASE_URL response itemId newQuantity w))) =
     map (\<lambda>item. if id' item = itemId then item\<lparr>quantity := newQuantity\<rparr> else item)
       (cartItems (page w))"
  by (cases "request_ok response") (simp_all add: updateQuantity_ok updateQuantity_failed)

lemma removeItem_cartItems:
  "cartItems (page (state_of (removeItem API_BASE_URL response itemId w))) =
     filter (\<lambda>item. id' item \<noteq> itemId) (cartItems (page w))"
  by (cases "request_ok response") (simp_all add: removeItem_ok removeItem_failed)

lemma removeItem_error:
  "error (page (state_of (removeItem API_BASE_URL response itemId w))) =
     (if request_ok response then error (page w) else Some msg_remove_item)"
  by (cases "request_ok response") (simp_all add: removeItem_ok removeItem_failed)

lemma updateQuantity_error:
  "0 < newQuantity \<Longrightarrow>
   error (page (state_of (updateQuantity API_BASE_URL response itemId newQuantity w))) =
     (if request_ok response then error (page w) else Some msg_update_quantity)"
  by (cases "request_ok response") (simp_all add: updateQuantity_ok updateQuantity_failed)

lemma shown_cart_items: "cartItems (page shown_cart) = mockCartItems"
  by (simp add: shown_cart_def)

text \<open>
  Claim C5. For every cart state and every item id, \<^verbatim>\<open>updateQuantity\<close> with a new quantity
  less than or equal to 0 produces the same resulting state as \<^verbatim>\<open>removeItem\<close> with that id
  (the network answering the one request in the same way).
\<close>

theorem updateQuantity_nonpositive_removes:
  "newQuantity \<le> 0 \<Longrightarrow>
   updateQuantity API_BASE_URL response itemId newQuantity w =
     removeItem API_BASE_URL response itemId w"
proof -
  assume "newQuantity \<le> 0"
  then have "updateQuantity API_BASE_URL response itemId newQuantity w =
      not_awaited (removeItem API_BASE_URL response itemId w)"
    by (simp add: updateQuantity_def)
  moreover have "not_awaited (removeItem API_BASE_URL response itemId w) =
      removeItem API_BASE_URL response itemId w"
    using removeItem_completes [of API_BASE_URL response itemId w]
    by (cases "removeItem API_BASE_URL response itemId w") (simp_all add: not_awaited_def)
  ultimately show ?thesis by simp
qed

theorem updateQuantity_nonpositive_removes_witness:
  "(0::int) \<le> 0
   \<and> updateQuantity ''/api'' (Response True NotJson :: unit fetch_result) ''1'' 0 shown_cart =
       removeItem ''/api'' (Response True NotJson :: unit fetch_result) ''1'' shown_cart
   \<and> map id' (cartItems (page (state_of
         (updateQuantity ''/api'' (Response True NotJson :: unit fetch_result) ''1'' 0 shown_cart)))) = [''2'']"
proof -
  have le: "(0::int) \<le> 0" by simp
  note same = updateQuantity_nonpositive_removes
    [OF le, of "''/api''" "Response True NotJson :: unit fetch_result" "''1''" shown_cart]
  have "map id' (cartItems (page (state_of
      (removeItem ''/api'' (Response True NotJson :: unit fetch_result) ''1'' shown_cart)))) = [''2'']"
    by (simp add: removeItem_cartItems shown_cart_items mockCartItems_def)
  then show ?thesis
    by (simp add: same)
qed

subsection \<open>Failure of the cart fetch\<close>

lemma fetchCart_completes: "\<not> propagates (fetchCart API_BASE_URL response w)"
  by (simp add: fetchCart_def try_catch_def try_finally_def split: completion.splits)

lemma fetchCart_thrown:
  "fetch_throws response \<Longrightarrow>
   cartItems (page (state_of (fetchCart API_BASE_URL response w))) = mockCartItems
   \<and> error (page (state_of (fetchCart API_BASE_URL response w))) = Some msg_fetch_cart
   \<and> \<not> loading (page (state_of (fetchCart API_BASE_URL response w)))"
  by (cases response rule: fetch_throws.cases)
     (simp_all add: fetchCart_def fetchCart_try_def try_catch_def try_finally_def Let_def)

lemma fetchCart_rejected:
  "envelope_rejected response \<Longrightarrow>
   cartItems (page (state_of (fetchCart API_BASE_URL response w))) = mockCartItems
   \<and> error (page (state_of (fetchCart API_BASE_URL response w))) = None
   \<and> \<not> loading (page (state_of (fetchCart API_BASE_URL response w)))"
  by (cases response rule: envelope_rejected.cases)
     (simp_all add: fetchCart_def fetchCart_try_def try_catch_def try_finally_def Let_def
           split: option.splits)

text \<open>
  Claim C6, as the code has it. When the cart fetch throws (network error, status not OK,
  or a body that is not JSON), the cart is set to the fixed mock cart, which is not empty,
  the error string of line 121 is recorded, loading ends and no exception propagates to the
  caller. When the response is OK but its envelope is not a success, the cart is likewise
  set to the mock cart and nothing propagates, but no error string is recorded: the error
  stays \<^verbatim>\<open>null\<close>, as line 74 set it.
\<close>

theorem fetchCart_failure_falls_back_to_mock:
  "(fetch_throws response \<longrightarrow>
      cartItems (page (state_of (fetchCart API_BASE_URL response w))) = mockCartItems
      \<and> cartItems (page (state_of (fetchCart API_BASE_URL response w))) \<noteq> []
      \<and> error (page (state_of (fetchCart API_BASE_URL response w))) = Some msg_fetch_cart
      \<and> \<not> loading (page (state_of (fetchCart API_BASE_URL response w)))
      \<and> \<not> propagates (fetchCart API_BASE_URL response w))
   \<and> (envelope_rejected response \<longrightarrow>
      cartItems (page (state_of (fetchCart API_BASE_URL response w))) = mockCartItems
      \<and> cartItems (page (state_of (fetchCart API_BASE_URL response w))) \<noteq> []
      \<and> error (page (state_of (fetchCart API_BASE_URL response w))) = None
      \<and> \<not> loading (page (state_of (fetchCart API_BASE_URL response w)))
      \<and> \<not> propagates (fetchCart API_BASE_URL response w))"
  using fetchCart_thrown [of response API_BASE_URL w]
    fetchCart_rejected [of response API_BASE_URL w]
    fetchCart_completes [of API_BASE_URL response w]
  by (simp add: mockCartItems_not_empty)

theorem fetchCart_failure_falls_back_to_mock_witness:
  "fetch_throws (Response False NotJson :: ApiCart fetch_result)
   \<and> cartItems (page (state_of (fetchCart ''/api'' (Response False NotJson) mounted_cart)))
       = mockCartItems
   \<and> error (page (state_of (fetchCart ''/api'' (Response False NotJson) mounted_cart)))
       = Some msg_fetch_cart
   \<and> envelope_rejected (Response True (Json (Envelope False None None)) :: ApiCart fetch_result)
   \<and> cartItems (page (state_of
         (fetchCart ''/api'' (Response True (Json (Envelope False None None))) mounted_cart)))
       = mockCartItems
   \<and> error (page (state_of
         (fetchCart ''/api'' (Response True (Json (Envelope False None None))) mounted_cart)))
       = None"
  using fetchCart_failure_falls_back_to_mock
          [of "Response False NotJson" "''/api''" mounted_cart]
        fetchCart_failure_falls_back_to_mock
          [of "Response True (Json (Envelope False None None))" "''/api''" mounted_cart]
  by simp

text \<open>
  Claim C6 as stated fails on a response whose envelope is not a success: the mock cart is
  set and nothing propagates, but no error string is recorded.
\<close>

theorem fetchCart_unsuccessful_envelope_records_no_error:
  "\<not> (cartItems (page (state_of
          (fetchCart ''/api'' (Response True (Json (Envelope False None None))) mounted_cart)))
        = mockCartItems
      \<and> error (page (state_of
          (fetchCart ''/api'' (Response True (Json (Envelope False None None))) mounted_cart)))
        \<noteq> None
      \<and> \<not> propagates
          (fetchCart ''/api'' (Response True (Json (Envelope False None None))) mounted_cart))"
  by (simp add: fetchCart_def fetchCart_try_def try_catch_def try_finally_def Let_def)

subsection \<open>Optimistic update and removal\<close>

lemma updated_quantity:
  "item \<in> set (map (\<lambda>item. if id' item = itemId then item\<lparr>quantity := q\<rparr> else item) xs)
   \<Longrightarrow> id' item = itemId \<Longrightarrow> quantity item = q"
proof (induction xs)
  case Nil
  then show ?case by simp
next
  case (Cons x xs)
  show ?case
  proof (cases "item = (if id' x = itemId then x\<lparr>quantity := q\<rparr> else x)")
    case True
    with Cons.prems(2) show ?thesis
      by (cases "id' x = itemId") simp_all
  next
    case False
    with Cons.prems(1) have "item \<in> set (map (\<lambda>item. if id' item = itemId then item\<lparr>quantity := q\<rparr> else item) xs)"
      by simp
    then show ?thesis using Cons.IH Cons.prems(2) by blast
  qed
qed

text \<open>
  Claim C7. For every item id and every positive new quantity, \<^verbatim>\<open>updateQuantity\<close> applies
  the new quantity to the matching item in the local state whether the request succeeds or
  fails; \<^verbatim>\<open>removeItem\<close> removes the item from the local state whether or not the delete
  request succeeded, and records an error message when it failed.
\<close>

theorem optimistic_update_and_removal:
  "(0 < newQuantity \<longrightarrow>
      cartItems (page (state_of (updateQuantity API_BASE_URL response itemId newQuantity w))) =
        map (\<lambda>item. if id' item = itemId then item\<lparr>quantity := newQuantity\<rparr> else item)
          (cartItems (page w))
      \<and> (\<forall>item \<in> set (cartItems (page (state_of
              (updateQuantity API_BASE_URL response itemId newQuantity w)))).
            id' item = itemId \<longrightarrow> quantity item = newQuantity))
   \<and> cartItems (page (state_of (removeItem API_BASE_URL response' itemId w))) =
        filter (\<lambda>item. id' item \<noteq> itemId) (cartItems (page w))
   \<and> (\<forall>item \<in> set (cartItems (page (state_of (removeItem API_BASE_URL response' itemId w)))).
          id' item \<noteq> itemId)
   \<and> (\<not> request_ok response' \<longrightarrow>
        error (page (state_of (removeItem API_BASE_URL response' itemId w))) = Some msg_remove_item)"
proof (intro conjI impI ballI)
  assume pos: "0 < newQuantity"
  show "cartItems (page (state_of (updateQuantity API_BASE_URL response itemId newQuantity w))) =
      map (\<lambda>item. if id' item = itemId then item\<lparr>quantity := newQuantity\<rparr> else item)
        (cartItems (page w))"
    by (rule updateQuantity_cartItems [OF pos])
  fix item
  assume "item \<in> set (cartItems (page (state_of
      (updateQuantity API_BASE_URL response itemId newQuantity w))))"
    and "id' item = itemId"
  then show "quantity item = newQuantity"
    unfolding updateQuantity_cartItems [OF pos] by (rule updated_quantity)
next
  show "cartItems (page (state_of (removeItem API_BASE_URL response' itemId w))) =
      filter (\<lambda>item. id' item \<noteq> itemId) (cartItems (page w))"
    by (rule removeItem_cartItems)
next
  fix item
  assume "item \<in> set (cartItems (page (state_of (removeItem API_BASE_URL response' itemId w))))"
  then show "id' item \<noteq> itemId"
    unfolding removeItem_cartItems by simp
next
  assume "\<not> request_ok response'"
  then show "error (page (state_of (removeItem API_BASE_URL response' itemId w)))
      = Some msg_remove_item"
    by (simp add: removeItem_error)
qed

theorem optimistic_update_and_removal_witness:
  "(0::int) < 5
   \<and> map quantity (cartItems (page (state_of
         (updateQuantity ''/api'' (NetworkError :: unit fetch_result) ''2'' 5 shown_cart)))) = [2, 5]
   \<and> map quantity (cartItems (page (state_of
         (updateQuantity ''/api'' (Response True NotJson :: unit fetch_result) ''2'' 5 shown_cart))))
       = [2, 5]
   \<and> \<not> request_ok (Response False NotJson :: unit fetch_result)
   \<and> map id' (cartItems (page (state_of
         (removeItem ''/api'' (Response False NotJson :: unit fetch_result) ''2'' shown_cart))))
       = [''1'']
   \<and> error (page (state_of
         (removeItem ''/api'' (Response False NotJson :: unit fetch_result) ''2'' shown_cart)))
       = Some msg_remove_item"
proof -
  have pos: "(0::int) < 5" by simp
  have failed: "\<not> request_ok (Response False NotJson :: unit fetch_result)" by simp
  note net = optimistic_update_and_removal
    [of 5 "''/api''" "NetworkError :: unit fetch_result" "''2''" shown_cart
        "Response False NotJson :: unit fetch_result"]
  note ok = optimistic_update_and_removal
    [of 5 "''/api''" "Response True NotJson :: unit fetch_result" "''2''" shown_cart
        "Response False NotJson :: unit fetch_result"]
  note a = net [THEN conjunct1, rule_format, OF pos, THEN conjunct1]
  note b = ok [THEN conjunct1, rule_format, OF pos, THEN conjunct1]
  note c = ok [THEN conjunct2, THEN conjunct1]
  note d = ok [THEN conjunct2, THEN conjunct2, THEN conjunct2, rule_format, OF failed]
  have m: "map quantity (map (\<lambda>item. if id' item = ''2'' then item\<lparr>quantity := 5\<rparr> else item)
        (cartItems (page shown_cart))) = [2, 5]"
    by (simp add: shown_cart_items mockCartItems_def)
  have f: "map id' (filter (\<lambda>item. id' item \<noteq> ''2'') (cartItems (page shown_cart))) = [''1'']"
    by (simp add: shown_cart_items mockCartItems_def)
  show ?thesis
    unfolding a b c d by (simp only: m f pos failed simp_thms)
qed

text \<open>
  Claim C10. For every cart state, item id and positive new quantity, the update of the
  local state by \<^verbatim>\<open>updateQuantity\<close> changes at most the quantity of the items whose id
  matches: the list keeps its length and order, every other item is unchanged, a matching
  item differs from the old one in its quantity only, and the list is unchanged when no item
  has the id.
\<close>

theorem updateQuantity_frame:
  "0 < newQuantity \<Longrightarrow>
   length (cartItems (page (state_of (updateQuantity API_BASE_URL response itemId newQuantity w))))
     = length (cartItems (page w))
   \<and> (\<forall>i < length (cartItems (page w)).
        (id' (cartItems (page w) ! i) \<noteq> itemId \<longrightarrow>
           cartItems (page (state_of (updateQuantity API_BASE_URL response itemId newQuantity w))) ! i
             = cartItems (page w) ! i)
        \<and> (id' (cartItems (page w) ! i) = itemId \<longrightarrow>
           cartItems (page (state_of (updateQuantity API_BASE_URL response itemId newQuantity w))) ! i
             = (cartItems (page w) ! i)\<lparr>quantity := newQuantity\<rparr>))
   \<and> (itemId \<notin> id' ` set (cartItems (page w)) \<longrightarrow>
        cartItems (page (state_of (updateQuantity API_BASE_URL response itemId newQuantity w)))
          = cartItems (page w))"
proof -
  assume pos: "0 < newQuantity"
  have "itemId \<notin> id' ` set xs \<Longrightarrow>
      map (\<lambda>item. if id' item = itemId then item\<lparr>quantity := newQuantity\<rparr> else item) xs = xs"
    for xs :: "CartItem list"
    by (induction xs) auto
  then show ?thesis
    by (simp add: updateQuantity_cartItems [OF pos])
qed

theorem updateQuantity_frame_witness:
  "(0::int) < 7
   \<and> length (cartItems (page (state_of
         (updateQuantity ''/api'' (Response True NotJson :: unit fetch_result) ''1'' 7 shown_cart))))
       = 2
   \<and> cartItems (page (state_of
         (updateQuantity ''/api'' (Response True NotJson :: unit fetch_result) ''1'' 7 shown_cart))) ! 0
       = (mockCartItems ! 0)\<lparr>quantity := 7\<rparr>
   \<and> cartItems (page (state_of
         (updateQuantity ''/api'' (Response True NotJson :: unit fetch_result) ''1'' 7 shown_cart))) ! 1
       = mockCartItems ! 1
   \<and> cartItems (page (state_of
         (updateQuantity ''/api'' (Response True NotJson :: unit fetch_result) ''9'' 7 shown_cart)))
       = mockCartItems"
proof -
  have pos: "(0::int) < 7" by simp
  note f1 = updateQuantity_frame
    [OF pos, of "''/api''" "Response True NotJson :: unit fetch_result" "''1''" shown_cart]
  note f9 = updateQuantity_frame
    [OF pos, of "''/api''" "Response True NotJson :: unit fetch_result" "''9''" shown_cart]
  note at = f1 [THEN conjunct2, THEN conjunct1, rule_format]
  have l0: "0 < length (cartItems (page shown_cart))"
    and l1: "1 < length (cartItems (page shown_cart))"
    and id0: "id' (cartItems (page shown_cart) ! 0) = ''1''"
    and id1: "id' (cartItems (page shown_cart) ! 1) \<noteq> ''1''"
    and no9: "''9'' \<notin> id' ` set (cartItems (page shown_cart))"
    by (simp_all add: shown_cart_items mockCartItems_def)
  note a = f1 [THEN conjunct1]
  note b = at [OF l0, THEN conjunct2, rule_format, OF id0]
  note c = at [OF l1, THEN conjunct1, rule_format, OF id1]
  note d = f9 [THEN conjunct2, THEN conjunct2, rule_format, OF no9]
  have len: "length mockCartItems = 2"
    by (simp add: mockCartItems_def)
  show ?thesis
    by (simp only: a b c d len shown_cart_items simp_thms pos)
qed

section \<open>Properties of the checkout orchestrator\<close>

lemma page_setSubmitting [simp]: "submitting (page (setSubmitting v w)) = v"
  "error (page (setSubmitting v w)) = error (page w)"
  "cartId (page (setSubmitting v w)) = cartId (page w)"
  "cartItems (page (setSubmitting v w)) = cartItems (page w)"
  "sent (setSubmitting v w) = sent w" "store (setSubmitting v w) = store w"
  "navigations (setSubmitting v w) = navigations w"
  by (simp_all add: setSubmitting_def)

lemma submitting_setError [simp]: "submitting (page (setError v w)) = submitting (page w)"
  by (simp add: setError_def)

lemma world_removeGuestToken [simp]: "page (removeGuestToken w) = page w"
  "sent (removeGuestToken w) = sent w" "navigations (removeGuestToken w) = navigations w"
  "guestToken (store (removeGuestToken w)) = None"
  "token (store (removeGuestToken w)) = token (store w)"
  by (simp_all add: removeGuestToken_def)

lemma handlePlaceOrder_no_cart:
  "\<not> truthy (cartId (page w)) \<Longrightarrow>
   handlePlaceOrder response w = Normal (setError (Some msg_no_cart) w)"
  by (simp add: handlePlaceOrder_def truthy_def split: option.splits)

lemma handlePlaceOrder_no_address:
  "truthy (cartId (page w)) \<Longrightarrow> selectedAddressId (page w) = [] \<Longrightarrow> addresses (page w) \<noteq> [] \<Longrightarrow>
   handlePlaceOrder response w = Normal (setError (Some msg_select_address) w)"
  by (simp add: handlePlaceOrder_def truthy_def split: option.splits)

lemma handlePlaceOrder_no_token:
  "truthy (cartId (page w)) \<Longrightarrow> \<not> (selectedAddressId (page w) = [] \<and> addresses (page w) \<noteq> []) \<Longrightarrow>
   \<not> truthy (token (store w)) \<Longrightarrow>
   handlePlaceOrder response w =
     Normal (setSubmitting False
               (navigate \<lparr>path = ''/login'', orderId = None\<rparr>
                  (setError (Some msg_login_first) (setError None (setSubmitting True w)))))"
  by (auto simp add: handlePlaceOrder_def handlePlaceOrder_try_def truthy_def try_catch_def
        try_finally_def split: option.splits)

lemma handlePlaceOrder_sends:
  "cartId (page w) = Some cid \<Longrightarrow> cid \<noteq> [] \<Longrightarrow>
   \<not> (selectedAddressId (page w) = [] \<and> addresses (page w) \<noteq> []) \<Longrightarrow>
   token (store w) = Some tok \<Longrightarrow> tok \<noteq> [] \<Longrightarrow>
   sent (state_of (handlePlaceOrder response w)) =
     sent w @ [\<lparr>url = ''${API_BASE_URL}/orders'', method' = POST,
                headers = [(''Content-Type'', ''application/json''),
                           (''Authorization'', ''Bearer '' @ tok)],
                body = Some (CartIdBody cid)\<rparr>]"
  by (cases response)
     (auto simp add: handlePlaceOrder_def handlePlaceOrder_try_def try_catch_def
        try_finally_def Let_def split: option.splits json.splits)

lemma handlePlaceOrder_success:
  "cartId (page w) = Some cid \<Longrightarrow> cid \<noteq> [] \<Longrightarrow>
   \<not> (selectedAddressId (page w) = [] \<and> addresses (page w) \<noteq> []) \<Longrightarrow>
   token (store w) = Some tok \<Longrightarrow> tok \<noteq> [] \<Longrightarrow>
   guestToken (store (state_of
       (handlePlaceOrder (Response True (Json (Envelope True (Some d) m))) w))) = None
   \<and> navigations (state_of
       (handlePlaceOrder (Response True (Json (Envelope True (Some d) m))) w)) =
       navigations w @ [\<lparr>path = ''/order-success'', orderId = Some (order_id d)\<rparr>]
   \<and> \<not> propagates (handlePlaceOrder (Response True (Json (Envelope True (Some d) m))) w)"
  by (simp add: handlePlaceOrder_def handlePlaceOrder_try_def try_catch_def
        try_finally_def Let_def)

lemma orders_url_literal:
  "(''${API_BASE_URL}/orders'' = API_BASE_URL @ ''/orders'') \<longleftrightarrow>
   API_BASE_URL = ''${API_BASE_URL}''"
proof -
  have "''${API_BASE_URL}/orders'' = ''${API_BASE_URL}'' @ ''/orders''"
    by simp
  then show ?thesis
    by (simp only: same_append_eq) auto
qed

text \<open>
  Claim C8. \<^verbatim>\<open>handlePlaceOrder\<close>, invoked when no cart identifier exists, or when the list
  of saved addresses is not empty and no address is selected, sets an error and returns
  without issuing a network request; when no bearer token is present at submit time it
  issues no request either, and with the preconditions met it ends the submission, records
  an error and redirects to the login page.
\<close>

theorem placeOrder_preconditions:
  "(\<not> truthy (cartId (page w))
      \<or> (selectedAddressId (page w) = [] \<and> addresses (page w) \<noteq> []) \<longrightarrow>
      error (page (state_of (handlePlaceOrder response w))) \<noteq> None
      \<and> sent (state_of (handlePlaceOrder response w)) = sent w
      \<and> navigations (state_of (handlePlaceOrder response w)) = navigations w
      \<and> \<not> propagates (handlePlaceOrder response w))
   \<and> (truthy (cartId (page w))
      \<and> \<not> (selectedAddressId (page w) = [] \<and> addresses (page w) \<noteq> [])
      \<and> \<not> truthy (token (store w)) \<longrightarrow>
      sent (state_of (handlePlaceOrder response w)) = sent w
      \<and> navigations (state_of (handlePlaceOrder response w)) =
          navigations w @ [\<lparr>path = ''/login'', orderId = None\<rparr>]
      \<and> \<not> submitting (page (state_of (handlePlaceOrder response w)))
      \<and> error (page (state_of (handlePlaceOrder response w))) = Some msg_login_first
      \<and> \<not> propagates (handlePlaceOrder response w))"
proof (intro conjI impI)
  assume a: "\<not> truthy (cartId (page w))
      \<or> (selectedAddressId (page w) = [] \<and> addresses (page w) \<noteq> [])"
  have "handlePlaceOrder response w = Normal (setError (Some msg_no_cart) w)
      \<or> handlePlaceOrder response w = Normal (setError (Some msg_select_address) w)"
  proof (cases "truthy (cartId (page w))")
    case False
    then show ?thesis by (simp add: handlePlaceOrder_no_cart)
  next
    case True
    with a show ?thesis by (simp add: handlePlaceOrder_no_address)
  qed
  then show "error (page (state_of (handlePlaceOrder response w))) \<noteq> None"
    and "sent (state_of (handlePlaceOrder response w)) = sent w"
    and "navigations (state_of (handlePlaceOrder response w)) = navigations w"
    and "\<not> propagates (handlePlaceOrder response w)"
    by auto
next
  assume "truthy (cartId (page w))
      \<and> \<not> (selectedAddressId (page w) = [] \<and> addresses (page w) \<noteq> [])
      \<and> \<not> truthy (token (store w))"
  then have r: "handlePlaceOrder response w =
     Normal (setSubmitting False
               (navigate \<lparr>path = ''/login'', orderId = None\<rparr>
                  (setError (Some msg_login_first) (setError None (setSubmitting True w)))))"
    by (simp add: handlePlaceOrder_no_token)
  show "sent (state_of (handlePlaceOrder response w)) = sent w"
    and "navigations (state_of (handlePlaceOrder response w)) =
          navigations w @ [\<lparr>path = ''/login'', orderId = None\<rparr>]"
    and "\<not> submitting (page (state_of (handlePlaceOrder response w)))"
    and "error (page (state_of (handlePlaceOrder response w))) = Some msg_login_first"
    and "\<not> propagates (handlePlaceOrder response w)"
    by (simp_all add: r)
qed

lemma checkout_of_simps:
  "cartId (page (checkout_of tok cid addrs sel)) = cid"
  "addresses (page (checkout_of tok cid addrs sel)) = addrs"
  "selectedAddressId (page (checkout_of tok cid addrs sel)) = sel"
  "token (store (checkout_of tok cid addrs sel)) = tok"
  "guestToken (store (checkout_of tok cid addrs sel)) = Some ''g-1''"
  "sent (checkout_of tok cid addrs sel) = []"
  "navigations (checkout_of tok cid addrs sel) = []"
  by (simp_all add: checkout_of_def)

theorem placeOrder_preconditions_witness:
  "\<not> truthy (cartId (page (checkout_of (Some ''t-1'') None [] [])))
   \<and> error (page (state_of (handlePlaceOrder NetworkError
         (checkout_of (Some ''t-1'') None [] [])))) \<noteq> None
   \<and> sent (state_of (handlePlaceOrder NetworkError
         (checkout_of (Some ''t-1'') None [] []))) = []
   \<and> selectedAddressId (page (checkout_of (Some ''t-1'') (Some ''c-1'') [home_address] [])) = []
   \<and> addresses (page (checkout_of (Some ''t-1'') (Some ''c-1'') [home_address] [])) \<noteq> []
   \<and> error (page (state_of (handlePlaceOrder NetworkError
         (checkout_of (Some ''t-1'') (Some ''c-1'') [home_address] [])))) \<noteq> None
   \<and> sent (state_of (handlePlaceOrder NetworkError
         (checkout_of (Some ''t-1'') (Some ''c-1'') [home_address] []))) = []
   \<and> truthy (cartId (page (checkout_of None (Some ''c-1'') [home_address] ''a-1'')))
   \<and> \<not> truthy (token (store (checkout_of None (Some ''c-1'') [home_address] ''a-1'')))
   \<and> sent (state_of (handlePlaceOrder NetworkError
         (checkout_of None (Some ''c-1'') [home_address] ''a-1''))) = []
   \<and> navigations (state_of (handlePlaceOrder NetworkError
         (checkout_of None (Some ''c-1'') [home_address] ''a-1'')))
       = [\<lparr>path = ''/login'', orderId = None\<rparr>]"
proof -
  note no_cart = placeOrder_preconditions
    [of "checkout_of (Some ''t-1'') None [] []" NetworkError, THEN conjunct1, rule_format]
  note no_address = placeOrder_preconditions
    [of "checkout_of (Some ''t-1'') (Some ''c-1'') [home_address] []" NetworkError,
     THEN conjunct1, rule_format]
  note no_token = placeOrder_preconditions
    [of "checkout_of None (Some ''c-1'') [home_address] ''a-1''" NetworkError,
     THEN conjunct2, rule_format]
  have h1: "\<not> truthy (cartId (page (checkout_of (Some ''t-1'') None [] [])))"
    by (simp add: checkout_of_simps truthy_def)
  have h2: "selectedAddressId (page (checkout_of (Some ''t-1'') (Some ''c-1'') [home_address] [])) = []
      \<and> addresses (page (checkout_of (Some ''t-1'') (Some ''c-1'') [home_address] [])) \<noteq> []"
    by (simp add: checkout_of_simps)
  have h3: "truthy (cartId (page (checkout_of None (Some ''c-1'') [home_address] ''a-1'')))
      \<and> \<not> (selectedAddressId (page (checkout_of None (Some ''c-1'') [home_address] ''a-1'')) = []
           \<and> addresses (page (checkout_of None (Some ''c-1'') [home_address] ''a-1'')) \<noteq> [])
      \<and> \<not> truthy (token (store (checkout_of None (Some ''c-1'') [home_address] ''a-1'')))"
    by (simp add: checkout_of_simps truthy_def)
  from no_cart [OF disjI1 [OF h1]] no_address [OF disjI2 [OF h2]] no_token [OF h3] h1 h2 h3
  show ?thesis
    by (simp add: checkout_of_simps)
qed

text \<open>
  Claim C9, at a concrete input. With a cart identifier, no saved address and a bearer
  token, \<^verbatim>\<open>handlePlaceOrder\<close> issues one POST with the body \<^verbatim>\<open>{cartId}\<close>, and on a success
  envelope it removes the guest token and navigates to \<^verbatim>\<open>/order-success\<close> with the order
  identifier of the answer. The URL of the request, however, is the text
  \<^verbatim>\<open>${API_BASE_URL}/orders\<close> as it stands in the source: it is not the \<^verbatim>\<open>/orders\<close> endpoint
  under the base URL of the API, here \<^verbatim>\<open>/api\<close>.
\<close>

theorem placeOrder_request_url_not_interpolated:
  "sent (state_of (handlePlaceOrder
       (Response True (Json (Envelope True (Some \<lparr>order_id = ''o-1''\<rparr>) None)))
       (checkout_of (Some ''t-1'') (Some ''c-1'') [] []))) =
     [\<lparr>url = ''${API_BASE_URL}/orders'', method' = POST,
       headers = [(''Content-Type'', ''application/json''), (''Authorization'', ''Bearer t-1'')],
       body = Some (CartIdBody ''c-1'')\<rparr>]
   \<and> ''${API_BASE_URL}/orders'' \<noteq> ''/api'' @ ''/orders''
   \<and> guestToken (store (state_of (handlePlaceOrder
       (Response True (Json (Envelope True (Some \<lparr>order_id = ''o-1''\<rparr>) None)))
       (checkout_of (Some ''t-1'') (Some ''c-1'') [] [])))) = None
   \<and> navigations (state_of (handlePlaceOrder
       (Response True (Json (Envelope True (Some \<lparr>order_id = ''o-1''\<rparr>) None)))
       (checkout_of (Some ''t-1'') (Some ''c-1'') [] []))) =
     [\<lparr>path = ''/order-success'', orderId = Some ''o-1''\<rparr>]"
proof -
  have pre: "cartId (page (checkout_of (Some ''t-1'') (Some ''c-1'') [] [])) = Some ''c-1''"
    "''c-1'' \<noteq> []"
    "\<not> (selectedAddressId (page (checkout_of (Some ''t-1'') (Some ''c-1'') [] [])) = []
        \<and> addresses (page (checkout_of (Some ''t-1'') (Some ''c-1'') [] [])) \<noteq> [])"
    "token (store (checkout_of (Some ''t-1'') (Some ''c-1'') [] [])) = Some ''t-1''"
    "''t-1'' \<noteq> []"
    by (simp_all add: checkout_of_simps)
  note s = handlePlaceOrder_sends [OF pre]
  note ok = handlePlaceOrder_success [OF pre]
  show ?thesis
    by (simp add: s ok checkout_of_simps)
qed

end
